theory Spec2Isabelle
  imports Main
begin

section \<open>Promises, timers and thrown errors\<close>

text \<open>
  A JavaScript \<open>Error\<close> as the services inspect it: the text of \<open>error.message\<close>, the
  HTTP status it carries (\<open>error.status\<close> for the OpenAI client, \<open>error.response.status\<close>
  for axios; \<open>None\<close> when the field is absent) and the network code \<open>error.code\<close>.
\<close>

record js_error =
  message :: string
  status :: "nat option"
  code :: "string option"

definition new_Error :: "string \<Rightarrow> js_error" where
  "new_Error m = \<lparr>message = m, status = None, code = None\<rparr>"

text \<open>
  The environment's answer to an awaited call: the promise fulfils with a value or rejects
  with an error, a number of milliseconds after the call, or it never settles.
\<close>

datatype 'a promise = Resolves nat 'a | Rejects nat js_error | Pending

text \<open>\<open>after d p\<close>: the promise \<open>p\<close>, created \<open>d\<close> milliseconds after the clock started.\<close>

fun after :: "nat \<Rightarrow> 'a promise \<Rightarrow> 'a promise" where
  "after d (Resolves t v) = Resolves (d + t) v"
| "after d (Rejects t e) = Rejects (d + t) e"
| "after d Pending = Pending"

fun map_promise :: "('a \<Rightarrow> 'b) \<Rightarrow> 'a promise \<Rightarrow> 'b promise" where
  "map_promise f (Resolves t v) = Resolves t (f v)"
| "map_promise f (Rejects t e) = Rejects t e"
| "map_promise f Pending = Pending"

text \<open>
  \<open>await Promise.race([p, new Promise((_, reject) => setTimeout(() => reject(new Error(msg)), ms))])\<close>:
  the first promise to settle wins. The awaited expression yields the value (\<open>Inr\<close>) or
  throws (\<open>Inl\<close>). A promise that settles strictly before the timer fires wins the race;
  one that has not settled by then loses it.
\<close>

definition race_timeout :: "'a promise \<Rightarrow> nat \<Rightarrow> string \<Rightarrow> js_error + 'a" where
  "race_timeout p ms msg =
     (case p of
        Resolves t v \<Rightarrow> if t < ms then Inr v else Inl (new_Error msg)
      | Rejects t e \<Rightarrow> if t < ms then Inl e else Inl (new_Error msg)
      | Pending \<Rightarrow> Inl (new_Error msg))"

text \<open>A plain \<open>await p\<close>, with no timer: the value, the thrown error, or no continuation.\<close>

datatype 'a awaited = Returned 'a | Thrown js_error | Never

fun await :: "'a promise \<Rightarrow> 'a awaited" where
  "await (Resolves t v) = Returned v"
| "await (Rejects t e) = Thrown e"
| "await Pending = Never"

section \<open>Strings\<close>

text \<open>Decimal rendering of a number inside a template literal.\<close>

definition digit_char :: "nat \<Rightarrow> char" where
  \<comment> \<open>only ever applied to a digit, \<open>d < 10\<close>\<close>
  "digit_char d = ''0123456789'' ! d"

function string_of_nat :: "nat \<Rightarrow> string" where
  "string_of_nat n =
     (if 10 \<le> n then string_of_nat (n div 10) @ [digit_char (n mod 10)] else [digit_char n])"
  by pat_completeness auto
termination
  by (relation "measure (\<lambda>n. n)") auto

section \<open>Data model\<close>

text \<open>
  An item as the Listing Source returns it. The fields kept are the ones the analysis and
  the handlers read; the remaining ones (description, url, website, thumbnail, makers,
  productLinks, user, fetchedAt) are carried along unchanged by the source and take no
  part in any decision. Timestamps are milliseconds since the epoch, \<open>None\<close> when the
  field is absent or does not parse as a date. A topic is kept as its \<open>name\<close>.
\<close>

record product =
  pid :: string
  name :: string
  tagline :: string
  votesCount :: "nat option"
  commentsCount :: "nat option"
  createdAt :: "int option"
  featuredAt :: "int option"
  topics :: "string list"

record target_user =
  demographic :: string
  likelihood :: string

record metadata =
  meta_analyzedAt :: string
  meta_model :: string
  tokensUsed :: nat
  productId :: string
  meta_productName :: string

text \<open>
  An analysis object: every field the analyzer or the handlers ever set, each optional
  (\<open>None\<close>: the object has no such field).
\<close>

record analysis =
  error :: "string option"
  productName :: "string option"
  targetUsers :: "target_user list option"
  successProbability :: "string option"
  summary :: "string option"
  marketInsights :: "string option"
  userPersonas :: "string list option"
  fallback :: "bool option"
  analyzedAt :: "string option"
  rawResponse :: "string option"
  metadata :: "metadata option"

definition empty_object :: analysis where
  "empty_object =
     \<lparr>error = None, productName = None, targetUsers = None, successProbability = None,
      summary = None, marketInsights = None, userPersonas = None, fallback = None,
      analyzedAt = None, rawResponse = None, metadata = None\<rparr>"

text \<open>
  A JavaScript value in the place of an analysis: \<open>null\<close> (or \<open>undefined\<close>), a
  primitive (number, string, boolean), or an object.
\<close>

datatype jval = JNull | JPrimitive | JObject analysis

text \<open>\<open>{ ...product, analysis }\<close>\<close>

record analyzed_product =
  item :: product
  analysis :: jval

text \<open>\<open>finalData\<close>, the payload of the \<open>complete\<close> event.\<close>

record run_summary =
  totalProducts :: nat
  successCount :: nat
  errorCount :: nat
  timestamp :: string
  products :: "analyzed_product list"

text \<open>
  The frames \<open>sendEvent(kind, data)\<close> writes, by kind, with the fields of the payload:
  \<open>status {message, step, total?}\<close>, \<open>progress {current, total, product, message}\<close>,
  \<open>product\<close> (the analyzed item), \<open>error {message}\<close> and \<open>complete\<close> (the summary).
\<close>

datatype event =
    Status string string "nat option"
  | Progress nat nat string string
  | ProductEvent analyzed_product
  | ErrorEvent string
  | Complete run_summary

text \<open>
  What a streaming handler does to the outside, in order: \<open>res.writeHead\<close>, one frame per
  \<open>sendEvent\<close>, a timer sleep of so many milliseconds, \<open>res.end()\<close>, and the assignment to
  the module-level variable \<open>latestAnalysisResults\<close>.
\<close>

datatype action =
    WriteHead nat
  | Frame event
  | Sleep nat
  | End
  | SetLatest run_summary

definition sendEvent :: "event \<Rightarrow> action list \<Rightarrow> action list" where
  "sendEvent e res = res @ [Frame e]"

section \<open>Strings of the fallback analysis\<close>

text \<open>
  The Chinese literals of \<open>createFallbackAnalysis\<close>, as their UTF-8 bytes; each comment
  gives the meaning.
\<close>

definition zh_medium :: string where
  \<comment> \<open>medium\<close>
  "zh_medium =
     [CHR 0xE4, CHR 0xB8, CHR 0xAD]"

definition zh_high :: string where
  \<comment> \<open>high\<close>
  "zh_high =
     [CHR 0xE9, CHR 0xAB, CHR 0x98]"

definition zh_low :: string where
  \<comment> \<open>low\<close>
  "zh_low =
     [CHR 0xE4, CHR 0xBD, CHR 0x8E]"

definition zh_developers :: string where
  \<comment> \<open>developers and technical professionals\<close>
  "zh_developers =
     [CHR 0xE5, CHR 0xBC, CHR 0x80, CHR 0xE5, CHR 0x8F, CHR 0x91, CHR 0xE8, CHR 0x80,
      CHR 0x85, CHR 0xE5, CHR 0x92, CHR 0x8C, CHR 0xE6, CHR 0x8A, CHR 0x80, CHR 0xE6,
      CHR 0x9C, CHR 0xAF, CHR 0xE4, CHR 0xB8, CHR 0x93, CHR 0xE4, CHR 0xB8, CHR 0x9A,
      CHR 0xE4, CHR 0xBA, CHR 0xBA, CHR 0xE5, CHR 0xA3, CHR 0xAB]"

definition zh_business :: string where
  \<comment> \<open>business professionals\<close>
  "zh_business =
     [CHR 0xE5, CHR 0x95, CHR 0x86, CHR 0xE4, CHR 0xB8, CHR 0x9A, CHR 0xE4, CHR 0xB8,
      CHR 0x93, CHR 0xE4, CHR 0xB8, CHR 0x9A, CHR 0xE4, CHR 0xBA, CHR 0xBA, CHR 0xE5,
      CHR 0xA3, CHR 0xAB]"

definition zh_designers :: string where
  \<comment> \<open>designers and creative workers\<close>
  "zh_designers =
     [CHR 0xE8, CHR 0xAE, CHR 0xBE, CHR 0xE8, CHR 0xAE, CHR 0xA1, CHR 0xE5, CHR 0xB8,
      CHR 0x88, CHR 0xE5, CHR 0x92, CHR 0x8C, CHR 0xE5, CHR 0x88, CHR 0x9B, CHR 0xE6,
      CHR 0x84, CHR 0x8F, CHR 0xE5, CHR 0xB7, CHR 0xA5, CHR 0xE4, CHR 0xBD, CHR 0x9C,
      CHR 0xE8, CHR 0x80, CHR 0x85]"

definition zh_ai :: string where
  \<comment> \<open>AI and machine learning practitioners\<close>
  "zh_ai =
     [CHR 0x41, CHR 0x49, CHR 0xE5, CHR 0x92, CHR 0x8C, CHR 0xE6, CHR 0x9C, CHR 0xBA,
      CHR 0xE5, CHR 0x99, CHR 0xA8, CHR 0xE5, CHR 0xAD, CHR 0xA6, CHR 0xE4, CHR 0xB9,
      CHR 0xA0, CHR 0xE4, CHR 0xBB, CHR 0x8E, CHR 0xE4, CHR 0xB8, CHR 0x9A, CHR 0xE8,
      CHR 0x80, CHR 0x85]"

definition zh_marketing :: string where
  \<comment> \<open>marketing and social media experts\<close>
  "zh_marketing =
     [CHR 0xE8, CHR 0x90, CHR 0xA5, CHR 0xE9, CHR 0x94, CHR 0x80, CHR 0xE5, CHR 0x92,
      CHR 0x8C, CHR 0xE7, CHR 0xA4, CHR 0xBE, CHR 0xE4, CHR 0xBA, CHR 0xA4, CHR 0xE5,
      CHR 0xAA, CHR 0x92, CHR 0xE4, CHR 0xBD, CHR 0x93, CHR 0xE4, CHR 0xB8, CHR 0x93,
      CHR 0xE5, CHR 0xAE, CHR 0xB6]"

definition zh_general :: string where
  \<comment> \<open>general technology users\<close>
  "zh_general =
     [CHR 0xE4, CHR 0xB8, CHR 0x80, CHR 0xE8, CHR 0x88, CHR 0xAC, CHR 0xE7, CHR 0xA7,
      CHR 0x91, CHR 0xE6, CHR 0x8A, CHR 0x80, CHR 0xE7, CHR 0x94, CHR 0xA8, CHR 0xE6,
      CHR 0x88, CHR 0xB7]"

definition zh_summary_votes :: string where
  \<comment> \<open>summary, before the vote count: received\<close>
  "zh_summary_votes =
     [CHR 0xE8, CHR 0x8E, CHR 0xB7, CHR 0xE5, CHR 0xBE, CHR 0x97]"

definition zh_summary_for :: string where
  \<comment> \<open>summary, after the vote count: votes, a product mainly aimed at\<close>
  "zh_summary_for =
     [CHR 0xE7, CHR 0xA5, CHR 0xA8, CHR 0xE7, CHR 0x9A, CHR 0x84, CHR 0xE4, CHR 0xBA,
      CHR 0xA7, CHR 0xE5, CHR 0x93, CHR 0x81, CHR 0xEF, CHR 0xBC, CHR 0x8C, CHR 0xE4,
      CHR 0xB8, CHR 0xBB, CHR 0xE8, CHR 0xA6, CHR 0x81, CHR 0xE9, CHR 0x9D, CHR 0xA2,
      CHR 0xE5, CHR 0x90, CHR 0x91]"

definition zh_insights :: string where
  \<comment> \<open>basic analysis based on product category and vote count\<close>
  "zh_insights =
     [CHR 0xE5, CHR 0x9F, CHR 0xBA, CHR 0xE4, CHR 0xBA, CHR 0x8E, CHR 0xE4, CHR 0xBA,
      CHR 0xA7, CHR 0xE5, CHR 0x93, CHR 0x81, CHR 0xE7, CHR 0xB1, CHR 0xBB, CHR 0xE5,
      CHR 0x88, CHR 0xAB, CHR 0xE5, CHR 0x92, CHR 0x8C, CHR 0xE6, CHR 0x8A, CHR 0x95,
      CHR 0xE7, CHR 0xA5, CHR 0xA8, CHR 0xE6, CHR 0x95, CHR 0xB0, CHR 0xE7, CHR 0x9A,
      CHR 0x84, CHR 0xE5, CHR 0x9F, CHR 0xBA, CHR 0xE7, CHR 0xA1, CHR 0x80, CHR 0xE5,
      CHR 0x88, CHR 0x86, CHR 0xE6, CHR 0x9E, CHR 0x90]"

text \<open>
  \<open>toLowerCase\<close> on the letters A to Z, and \<open>includes\<close> as a search for a contiguous
  substring. (Strings are byte strings here; every pattern searched for is plain ASCII.)
\<close>

definition lower_char :: "char \<Rightarrow> char" where
  "lower_char c =
     (let n = (of_char c :: nat) in if 65 \<le> n \<and> n \<le> 90 then char_of (n + 32) else c)"

definition toLowerCase :: "string \<Rightarrow> string" where
  "toLowerCase s = map lower_char s"

fun includes_str :: "string \<Rightarrow> string \<Rightarrow> bool" where
  "includes_str [] sub = (sub = [])"
| "includes_str (c # cs) sub = (take (length sub) (c # cs) = sub \<or> includes_str cs sub)"

section \<open>ChatGPTService\<close>

text \<open>
  The module \<open>./services/chatGPTService\<close> that \<open>server.js\<close> requires; its source is the
  class \<open>ChatGPTService\<close> in \<open>src/services/productHuntService.js\<close>, from line 1078.
\<close>

text \<open>
  The reply of \<open>openai.chat.completions.create\<close>: the choices, each with its
  \<open>message.content\<close> (\<open>None\<close> for \<open>null\<close>), and \<open>usage?.total_tokens\<close>.
\<close>

record choice =
  content :: "string option"

record completion =
  choices :: "choice list"
  total_tokens :: "nat option"

text \<open>\<open>JSON.parse(text)\<close> returns a value or throws.\<close>

datatype parsed = ParseError | Parsed jval

text \<open>
  The world the analyzer runs in: whether \<open>this.openai\<close> is set (the constructor leaves
  it \<open>null\<close> without an API key); the answer of the API to the call made for item number
  \<open>k\<close> of the run at attempt \<open>retryCount\<close>; \<open>JSON.parse\<close>; and the clock reading.
\<close>

record gpt_world =
  openai :: bool
  create :: "nat \<Rightarrow> nat \<Rightarrow> completion promise"
  JSON_parse :: "string \<Rightarrow> parsed"
  clock :: string

definition gpt_model :: string where
  "gpt_model = ''gpt-4o''"

definition gpt_maxRetries :: nat where
  "gpt_maxRetries = 3"

definition gpt_retryDelay :: nat where
  "gpt_retryDelay = 2000"

text \<open>\<open>shouldRetry(error)\<close> of the class \<open>ChatGPTService\<close>.\<close>

definition shouldRetry :: "js_error \<Rightarrow> bool" where
  "shouldRetry e =
     (if status e = Some 429 then True
      else if (case status e of Some s \<Rightarrow> 500 \<le> s \<and> s < 600 | None \<Rightarrow> False) then True
      else if code e = Some ''ECONNRESET'' \<or> code e = Some ''ETIMEDOUT'' then True
      else False)"

text \<open>
  \<open>createFallbackAnalysis(product)\<close>: the rule-based analysis. The list of target users
  is never empty when \<open>targetUsers[0]\<close> is read: the default user is pushed when no topic
  matched.
\<close>

definition topic_match :: "string list \<Rightarrow> string \<Rightarrow> string \<Rightarrow> bool" where
  \<comment> \<open>\<open>topics.some(t => t.toLowerCase().includes(a) || t.toLowerCase().includes(b))\<close>\<close>
  "topic_match ts a b =
     list_ex (\<lambda>t. includes_str (toLowerCase t) a \<or> includes_str (toLowerCase t) b) ts"

definition createFallbackAnalysis :: "string \<Rightarrow> product \<Rightarrow> analysis" where
  "createFallbackAnalysis now p =
     (let voteCount = (case votesCount p of None \<Rightarrow> 0 | Some v \<Rightarrow> v);
          ts = topics p;
          pushed =
            (if topic_match ts ''developer'' ''tech''
             then [\<lparr>demographic = zh_developers, likelihood = zh_high\<rparr>] else [])
            @ (if topic_match ts ''business'' ''productivity''
               then [\<lparr>demographic = zh_business, likelihood = zh_high\<rparr>] else [])
            @ (if topic_match ts ''design'' ''creative''
               then [\<lparr>demographic = zh_designers, likelihood = zh_high\<rparr>] else [])
            @ (if topic_match ts ''ai'' ''machine learning''
               then [\<lparr>demographic = zh_ai, likelihood = zh_high\<rparr>] else [])
            @ (if topic_match ts ''marketing'' ''social''
               then [\<lparr>demographic = zh_marketing, likelihood = zh_high\<rparr>] else []);
          users = (if length pushed = 0
                   then [\<lparr>demographic = zh_general, likelihood = zh_medium\<rparr>] else pushed);
          probability = (if voteCount > 100 then zh_high
                         else if voteCount < 20 then zh_low else zh_medium)
      in \<lparr>error = None,
          productName = Some (name p),
          targetUsers = Some users,
          successProbability = Some probability,
          summary = Some (zh_summary_votes @ string_of_nat voteCount @ zh_summary_for
                            @ demographic (hd users)),
          marketInsights = Some zh_insights,
          userPersonas = Some (map demographic (take 3 users)),
          fallback = Some True,
          analyzedAt = Some now,
          rawResponse = None,
          metadata = None\<rparr>)"

text \<open>
  The \<open>try\<close> block of \<open>analyzeProduct\<close> from the reply on: read
  \<open>completion.choices[0].message.content\<close> (a \<open>TypeError\<close> without a first choice), parse
  it (the inner \<open>catch\<close> replaces a parse failure by an object with \<open>error\<close>,
  \<open>rawResponse\<close> and \<open>summary\<close>), then assign \<open>analysis.metadata\<close>: a \<open>TypeError\<close> on
  \<open>null\<close>, and on a primitive too, the class body being strict code. The messages are
  the engine's; the one for a primitive names the value there, which is left out here.
\<close>

definition typeError_choice :: js_error where
  "typeError_choice = new_Error ''Cannot read properties of undefined (reading 'message')''"

definition typeError_null :: js_error where
  "typeError_null = new_Error ''Cannot set properties of null (setting 'metadata')''"

definition typeError_primitive :: js_error where
  "typeError_primitive = new_Error ''Cannot create property 'metadata' on a primitive value''"

definition read_completion :: "gpt_world \<Rightarrow> product \<Rightarrow> completion \<Rightarrow> js_error + analysis" where
  "read_completion w p c =
     (case choices c of
        [] \<Rightarrow> Inl typeError_choice
      | ch # _ \<Rightarrow>
          (let v = (case content ch of
                      None \<Rightarrow> JNull
                    | Some analysisText \<Rightarrow>
                        (case JSON_parse w analysisText of
                           Parsed v \<Rightarrow> v
                         | ParseError \<Rightarrow>
                             JObject (empty_object
                               \<lparr>error := Some ''Failed to parse structured response'',
                                rawResponse := Some analysisText,
                                summary := Some ''Analysis completed but response format was invalid''\<rparr>)))
           in case v of
                JNull \<Rightarrow> Inl typeError_null
              | JPrimitive \<Rightarrow> Inl typeError_primitive
              | JObject a \<Rightarrow>
                  Inr (a\<lparr>metadata := Some
                         \<lparr>meta_analyzedAt = clock w,
                          meta_model = gpt_model,
                          tokensUsed = (case total_tokens c of None \<Rightarrow> 0 | Some n \<Rightarrow> n),
                          productId = pid p,
                          meta_productName = name p\<rparr>\<rparr>)))"

text \<open>
  One pass through the \<open>try\<close> block at attempt \<open>retryCount\<close>: \<open>None\<close> when the API call
  never settles; otherwise the time at which the block is left, by \<open>return\<close> (\<open>Inr\<close>) or
  into the \<open>catch\<close> block (\<open>Inl\<close>).
\<close>

definition try_block ::
  "gpt_world \<Rightarrow> nat \<Rightarrow> product \<Rightarrow> nat \<Rightarrow> (nat \<times> (js_error + analysis)) option" where
  "try_block w k p retryCount =
     (if \<not> openai w then Some (0, Inr (createFallbackAnalysis (clock w) p))
      else (case create w k retryCount of
              Pending \<Rightarrow> None
            | Resolves t c \<Rightarrow> Some (t, read_completion w p c)
            | Rejects t e \<Rightarrow> Some (t, Inl e)))"

text \<open>The simplified error analysis the \<open>catch\<close> block of \<open>analyzeProduct\<close> returns.\<close>

definition errorAnalysis :: "string \<Rightarrow> js_error \<Rightarrow> analysis" where
  "errorAnalysis now e =
     \<lparr>error = Some (message e),
      productName = None,
      targetUsers = Some [\<lparr>demographic = ''Analysis failed'', likelihood = ''unknown''\<rparr>],
      successProbability = Some ''unknown'',
      summary = Some ''Analysis unavailable due to API error'',
      marketInsights = None,
      userPersonas = None,
      fallback = None,
      analyzedAt = Some now,
      rawResponse = None,
      metadata = None\<rparr>"

text \<open>
  \<open>analyzeProduct(product, retryCount)\<close>. The \<open>catch\<close> block retries after
  \<open>retryDelay\<close> while \<open>retryCount < maxRetries\<close> and the error is one to retry, and
  otherwise returns the simplified error analysis.
\<close>

function analyzeProduct :: "gpt_world \<Rightarrow> nat \<Rightarrow> product \<Rightarrow> nat \<Rightarrow> jval promise" where
  "analyzeProduct w k p retryCount =
     (case try_block w k p retryCount of
        None \<Rightarrow> Pending
      | Some (t, Inr a) \<Rightarrow> Resolves t (JObject a)
      | Some (t, Inl e) \<Rightarrow>
          if retryCount < gpt_maxRetries \<and> shouldRetry e
          then after (t + gpt_retryDelay) (analyzeProduct w k p (retryCount + 1))
          else Resolves t (JObject (errorAnalysis (clock w) e)))"
  by pat_completeness auto
termination
  by (relation "measure (\<lambda>(w, k, p, retryCount). gpt_maxRetries - retryCount)") auto

section \<open>ProductHuntService\<close>

text \<open>
  The class \<open>ProductHuntService\<close> with the REST and mock fallbacks, from line 282 of
  \<open>src/services/productHuntService.js\<close>. (The file opens with an earlier copy of the
  class, whose \<open>getTrendingProducts\<close> has no fallback and rethrows; it is not modelled.)
\<close>

text \<open>
  A node of the GraphQL reply, with the fields the service reads; \<open>post_topics\<close> holds the
  names under \<open>topics.edges\<close> (\<open>None\<close> when the reply has no such list).
\<close>

record post =
  post_id :: string
  post_name :: string
  post_tagline :: string
  post_votesCount :: "nat option"
  post_commentsCount :: "nat option"
  post_createdAt :: "int option"
  post_featuredAt :: "int option"
  post_topics :: "string list option"

text \<open>
  The body axios resolves with (\<open>response.data\<close>): \<open>gql_errors\<close> is the text of
  \<open>JSON.stringify(errors)\<close> when the body has a truthy \<open>errors\<close>; \<open>gql_posts\<close> holds the
  nodes of \<open>data.posts.edges\<close>, \<open>None\<close> when the body has no usable \<open>data.posts\<close>.
\<close>

record gql_body =
  gql_errors :: "string option"
  gql_posts :: "post list option"

text \<open>A post of the REST reply (\<open>response.data.posts\<close>).\<close>

record rest_post =
  rest_id :: "string option"
  rest_name :: "string option"
  rest_tagline :: "string option"
  votes_count :: "nat option"
  comments_count :: "nat option"
  day :: "int option"

text \<open>
  The world the Listing Source runs in: the answer of \<open>axios.post\<close> to the GraphQL request
  (token, \<open>first\<close>, attempt), the answer of \<open>axios.get\<close> to the REST request (token,
  \<open>per_page\<close>; \<open>None\<close> for a body without \<open>posts\<close>), local midnight of today,
  \<open>Date.now()\<close>, and the successive draws of \<open>Math.random()\<close> scaled to naturals.
\<close>

record ph_world =
  graphql_post :: "string \<Rightarrow> nat \<Rightarrow> nat \<Rightarrow> gql_body promise"
  rest_get :: "string \<Rightarrow> nat \<Rightarrow> rest_post list option promise"
  todayStart :: int
  date_now :: int
  random_draw :: "nat \<Rightarrow> nat"

definition ph_maxRetries :: nat where
  "ph_maxRetries = 3"

definition ph_retryDelay :: nat where
  "ph_retryDelay = 1000"

text \<open>\<open>shouldRetry(error)\<close> of the class \<open>ProductHuntService\<close>.\<close>

definition ph_shouldRetry :: "js_error \<Rightarrow> bool" where
  "ph_shouldRetry e =
     (case status e of
        Some s \<Rightarrow> s = 429 \<or> (500 \<le> s \<and> s < 600)
      | None \<Rightarrow> code e = Some ''ECONNRESET'' \<or> code e = Some ''ETIMEDOUT'')"

text \<open>
  The \<open>try\<close> block of \<open>makeGraphQLRequest\<close>: \<open>None\<close> when the request never settles,
  otherwise the time at which it returns the body (\<open>Inr\<close>) or enters \<open>catch\<close> (\<open>Inl\<close>).
\<close>

definition request_try ::
  "ph_world \<Rightarrow> string \<Rightarrow> nat \<Rightarrow> nat \<Rightarrow> (nat \<times> (js_error + gql_body)) option" where
  "request_try w accessToken first retryCount =
     (case graphql_post w accessToken first retryCount of
        Pending \<Rightarrow> None
      | Resolves t body \<Rightarrow>
          (case gql_errors body of
             Some errs \<Rightarrow> Some (t, Inl (new_Error (''GraphQL errors: '' @ errs)))
           | None \<Rightarrow> Some (t, Inr body))
      | Rejects t e \<Rightarrow> Some (t, Inl e))"

function makeGraphQLRequest :: "ph_world \<Rightarrow> string \<Rightarrow> nat \<Rightarrow> nat \<Rightarrow> gql_body promise" where
  "makeGraphQLRequest w accessToken first retryCount =
     (case request_try w accessToken first retryCount of
        None \<Rightarrow> Pending
      | Some (t, Inr body) \<Rightarrow> Resolves t body
      | Some (t, Inl e) \<Rightarrow>
          if retryCount < ph_maxRetries \<and> ph_shouldRetry e
          then after (t + ph_retryDelay) (makeGraphQLRequest w accessToken first (retryCount + 1))
          else Rejects t e)"
  by pat_completeness auto
termination
  by (relation "measure (\<lambda>(w, accessToken, first, retryCount). ph_maxRetries - retryCount)") auto

definition transformProduct :: "post \<Rightarrow> product" where
  "transformProduct p =
     \<lparr>pid = post_id p, name = post_name p, tagline = post_tagline p,
      votesCount = post_votesCount p, commentsCount = post_commentsCount p,
      createdAt = post_createdAt p, featuredAt = post_featuredAt p,
      topics = (case post_topics p of None \<Rightarrow> [] | Some ts \<Rightarrow> ts)\<rparr>"

definition transformRESTProduct :: "ph_world \<Rightarrow> rest_post \<Rightarrow> product" where
  "transformRESTProduct w p =
     \<lparr>pid = (case rest_id p of None \<Rightarrow> [] | Some s \<Rightarrow> s),
      name = (case rest_name p of None \<Rightarrow> [] | Some s \<Rightarrow> s),
      tagline = (case rest_tagline p of None \<Rightarrow> [] | Some s \<Rightarrow> s),
      votesCount = Some (case votes_count p of None \<Rightarrow> 0 | Some n \<Rightarrow> n),
      commentsCount = Some (case comments_count p of None \<Rightarrow> 0 | Some n \<Rightarrow> n),
      createdAt = Some (case day p of None \<Rightarrow> date_now w | Some d \<Rightarrow> d),
      featuredAt = Some (case day p of None \<Rightarrow> date_now w | Some d \<Rightarrow> d),
      topics = []\<rparr>"

text \<open>\<open>getTrendingProductsREST\<close>: its \<open>catch\<close> block rethrows.\<close>

definition getTrendingProductsREST :: "ph_world \<Rightarrow> string \<Rightarrow> nat \<Rightarrow> product list promise" where
  "getTrendingProductsREST w accessToken limit =
     (case rest_get w accessToken (min limit 50) of
        Pending \<Rightarrow> Pending
      | Rejects t e \<Rightarrow> Rejects t e
      | Resolves t None \<Rightarrow> Rejects t (new_Error ''Invalid response from REST API'')
      | Resolves t (Some posts) \<Rightarrow> Resolves t (take limit (map (transformRESTProduct w) posts)))"

text \<open>\<open>getMockProducts(limit)\<close>: three fixed products, then generated ones up to twenty.\<close>

definition mockProducts :: "ph_world \<Rightarrow> product list" where
  "mockProducts w =
     [\<lparr>pid = ''mock-1'', name = ''AI Code Assistant Pro'',
       tagline = ''Your intelligent coding companion'',
       votesCount = Some 1247, commentsCount = Some 89,
       createdAt = Some (date_now w), featuredAt = Some (date_now w),
       topics = [''Developer Tools'']\<rparr>,
      \<lparr>pid = ''mock-2'', name = ''DataViz Studio'',
       tagline = ''Beautiful data visualizations made simple'',
       votesCount = Some 892, commentsCount = Some 67,
       createdAt = Some (date_now w - 86400000), featuredAt = Some (date_now w - 86400000),
       topics = [''Analytics'']\<rparr>,
      \<lparr>pid = ''mock-3'', name = ''CloudSync Manager'',
       tagline = ''Seamless file synchronization across all devices'',
       votesCount = Some 634, commentsCount = Some 45,
       createdAt = Some (date_now w - 172800000), featuredAt = Some (date_now w - 172800000),
       topics = [''Productivity'']\<rparr>]"

definition additionalProduct :: "ph_world \<Rightarrow> nat \<Rightarrow> product" where
  "additionalProduct w i =
     \<lparr>pid = ''mock-'' @ string_of_nat i, name = ''Product '' @ string_of_nat i,
      tagline = ''Innovative solution for modern challenges'',
      votesCount = Some (random_draw w (2 * i) mod 500 + 100),
      commentsCount = Some (random_draw w (2 * i + 1) mod 50 + 10),
      createdAt = Some (date_now w - int i * 86400000),
      featuredAt = Some (date_now w - int i * 86400000),
      topics = [''Technology'']\<rparr>"

definition getMockProducts :: "ph_world \<Rightarrow> nat \<Rightarrow> product list" where
  "getMockProducts w limit =
     take limit (mockProducts w @ map (additionalProduct w) [4 ..< Suc (min limit 20)])"

text \<open>
  The \<open>try\<close> block of \<open>getTrendingProducts\<close> once the posts are read: keep the posts
  created or featured today, sort them by votes, descending (\<open>Array.prototype.sort\<close> is
  stable), take \<open>limit\<close>; with none launched today, the first \<open>limit\<close> posts as they came.
\<close>

definition launched_today :: "ph_world \<Rightarrow> post \<Rightarrow> bool" where
  "launched_today w p =
     (let todayEnd = todayStart w + 24 * 60 * 60 * 1000;
          isCreatedToday = (case post_createdAt p of
                              None \<Rightarrow> False
                            | Some d \<Rightarrow> todayStart w \<le> d \<and> d < todayEnd);
          isFeaturedToday = (case post_featuredAt p of
                               None \<Rightarrow> False
                             | Some d \<Rightarrow> todayStart w \<le> d \<and> d < todayEnd)
      in isCreatedToday \<or> isFeaturedToday)"

definition select_products :: "ph_world \<Rightarrow> nat \<Rightarrow> post list \<Rightarrow> product list" where
  "select_products w limit posts =
     (let todaysProducts = filter (launched_today w) posts;
          by_votes = sort_key
            (\<lambda>p. - int (case post_votesCount p of None \<Rightarrow> 0 | Some v \<Rightarrow> v)) todaysProducts;
          limitedProducts = take limit by_votes
      in if length limitedProducts > 0 then map transformProduct limitedProducts
         else map transformProduct (take limit posts))"

text \<open>
  The \<open>try\<close> block of \<open>getTrendingProducts\<close>: \<open>None\<close> when the request never settles,
  otherwise the time and the products returned, or \<open>None\<close> in their place when the block
  is left for \<open>catch\<close> (the request failed, or the body has no \<open>data.posts\<close>).
\<close>

definition graphql_try ::
  "ph_world \<Rightarrow> string \<Rightarrow> nat \<Rightarrow> (nat \<times> product list option) option" where
  "graphql_try w accessToken limit =
     (let fetchLimit = min (limit * 2) 30
      in case makeGraphQLRequest w accessToken fetchLimit 0 of
           Pending \<Rightarrow> None
         | Rejects t e \<Rightarrow> Some (t, None)
         | Resolves t body \<Rightarrow>
             (case gql_posts body of
                None \<Rightarrow> Some (t, None)
              | Some posts \<Rightarrow> Some (t, Some (select_products w limit posts))))"

text \<open>
  \<open>getTrendingProducts(accessToken, limit)\<close>: the \<open>catch\<close> block awaits the REST
  fallback, and the inner \<open>catch\<close> returns the mock data.
\<close>

definition getTrendingProducts :: "ph_world \<Rightarrow> string \<Rightarrow> nat \<Rightarrow> product list promise" where
  "getTrendingProducts w accessToken limit =
     (case graphql_try w accessToken limit of
        None \<Rightarrow> Pending
      | Some (t, Some ps) \<Rightarrow> Resolves t ps
      | Some (t, None) \<Rightarrow>
          (case after t (getTrendingProductsREST w accessToken limit) of
             Pending \<Rightarrow> Pending
           | Resolves t' ps \<Rightarrow> Resolves t' ps
           | Rejects t' restError \<Rightarrow> Resolves t' (getMockProducts w limit)))"

section \<open>The streaming handler \<open>/api/analyze-stream\<close> (server.js)\<close>

text \<open>The local variables of the analysis loop, and the response written so far.\<close>

record loop_state =
  analyzedProducts :: "analyzed_product list"
  st_successCount :: nat
  st_errorCount :: nat
  out :: "action list"

text \<open>
  One iteration of \<open>for (let i = 0; i < products.length; i++)\<close>: the \<open>try\<close> block sends
  the progress frame, races the analyzer against 8000 ms, and on a value pushes the
  analyzed product, counts a success and sends it; the \<open>catch\<close> block pushes the product
  with \<open>{ error: error.message }\<close>, counts an error and sends it. The 200 ms sleep
  follows the \<open>try/catch\<close> in every iteration.
  The analyzer is the method \<open>chatGPTService.analyzeProduct\<close>; its first argument here is
  the number of the call within the run, so that the outside world may answer each call
  differently.
\<close>

definition loop_body ::
  "(nat \<Rightarrow> product \<Rightarrow> jval promise) \<Rightarrow> nat \<Rightarrow> nat \<Rightarrow> product \<Rightarrow> loop_state \<Rightarrow> loop_state" where
  "loop_body analyzer n i p s =
     (let s1 = s\<lparr>out := sendEvent (Progress (i + 1) n (name p)
                         (''Analyzing '' @ name p @ ''...'')) (out s)\<rparr>;
          s2 = (case race_timeout (analyzer i p) 8000 ''Analysis timeout'' of
                  Inr a \<Rightarrow>
                    (let analyzedProduct = \<lparr>item = p, analysis = a\<rparr>
                     in s1\<lparr>analyzedProducts := analyzedProducts s1 @ [analyzedProduct],
                           st_successCount := st_successCount s1 + 1,
                           out := sendEvent (ProductEvent analyzedProduct) (out s1)\<rparr>)
                | Inl e \<Rightarrow>
                    (let errorProduct =
                           \<lparr>item = p, analysis = JObject (empty_object\<lparr>error := Some (message e)\<rparr>)\<rparr>
                     in s1\<lparr>analyzedProducts := analyzedProducts s1 @ [errorProduct],
                           st_errorCount := st_errorCount s1 + 1,
                           out := sendEvent (ProductEvent errorProduct) (out s1)\<rparr>))
      in s2\<lparr>out := out s2 @ [Sleep 200]\<rparr>)"

text \<open>The loop, from index \<open>i\<close> over the products from \<open>products[i]\<close> on.\<close>

fun analysis_loop ::
  "(nat \<Rightarrow> product \<Rightarrow> jval promise) \<Rightarrow> nat \<Rightarrow> nat \<Rightarrow> product list \<Rightarrow> loop_state \<Rightarrow> loop_state" where
  "analysis_loop analyzer n i [] s = s"
| "analysis_loop analyzer n i (p # rest) s =
     analysis_loop analyzer n (i + 1) rest (loop_body analyzer n i p s)"

text \<open>
  The handler. \<open>accessToken\<close> is what \<open>authService.getStoredToken()\<close> resolved with
  (\<open>None\<close> for \<open>null\<close>); \<open>!accessToken\<close> also holds of the empty string. \<open>listing\<close> is
  \<open>productHuntService.getTrendingProducts\<close>, whose result may be \<open>null\<close> (\<open>None\<close>) as far
  as the handler knows. \<open>now\<close> is the clock reading \<open>new Date().toISOString()\<close>.
  A \<open>return res.end()\<close> inside the \<open>try\<close> is followed by the \<open>res.end()\<close> of \<open>finally\<close>.
\<close>

definition analyze_stream ::
  "string option \<Rightarrow> (string \<Rightarrow> nat \<Rightarrow> product list option promise) \<Rightarrow>
   (nat \<Rightarrow> product \<Rightarrow> jval promise) \<Rightarrow> string \<Rightarrow> action list" where
  "analyze_stream accessToken listing analyzer now =
     (let res0 = sendEvent (Status ''Starting analysis...'' ''init'' None) [WriteHead 200];
          unauthenticated =
            sendEvent (ErrorEvent ''Authentication required. Please set up API credentials.'') res0
              @ [End, End]
      in case accessToken of
           None \<Rightarrow> unauthenticated
         | Some token \<Rightarrow>
             if token = [] then unauthenticated
             else
               (let res1 = sendEvent (Status ''Fetching trending products...'' ''fetch'' None) res0;
                    empty = sendEvent (ErrorEvent ''No trending products found'') res1 @ [End, End]
                in case race_timeout (listing token 10) 15000 ''Fetch timeout'' of
                     Inl e \<Rightarrow> sendEvent (ErrorEvent (message e)) res1 @ [End]
                   | Inr None \<Rightarrow> empty
                   | Inr (Some ps) \<Rightarrow>
                       if length ps = 0 then empty
                       else
                         (let res2 = sendEvent
                                (Status (''Found '' @ string_of_nat (length ps)
                                           @ '' products. Starting analysis...'')
                                   ''analyze'' (Some (length ps))) res1;
                              s = analysis_loop analyzer (length ps) 0 ps
                                    \<lparr>analyzedProducts = [], st_successCount = 0,
                                     st_errorCount = 0, out = res2\<rparr>;
                              finalData =
                                \<lparr>totalProducts = length (analyzedProducts s),
                                 successCount = st_successCount s,
                                 errorCount = st_errorCount s,
                                 timestamp = now,
                                 products = analyzedProducts s\<rparr>
                          in sendEvent (Complete finalData) (out s) @ [End])))"

text \<open>The frames of a response, in the order written.\<close>

fun frames :: "action list \<Rightarrow> event list" where
  "frames [] = []"
| "frames (Frame e # as) = e # frames as"
| "frames (a # as) = frames as"

section \<open>The server file that keeps the latest results\<close>

text \<open>
  A second copy of the server file (in \<open>src/test-server.js\<close>, from line 483) differs from
  \<open>server.js\<close> in the module-level variable \<open>latestAnalysisResults\<close>, initially \<open>null\<close>:
  its streaming handler assigns \<open>finalData\<close> to it just before the \<open>complete\<close> frame, and
  \<open>/api/latest-results\<close> reads it. The handler below returns the response and the
  variable's value afterwards.
\<close>

definition analyze_stream_latest ::
  "string option \<Rightarrow> (string \<Rightarrow> nat \<Rightarrow> product list option promise) \<Rightarrow>
   (nat \<Rightarrow> product \<Rightarrow> jval promise) \<Rightarrow> string \<Rightarrow> run_summary option \<Rightarrow>
   action list \<times> run_summary option" where
  "analyze_stream_latest accessToken listing analyzer now latestAnalysisResults =
     (let res0 = sendEvent (Status ''Starting analysis...'' ''init'' None) [WriteHead 200];
          unauthenticated =
            sendEvent (ErrorEvent ''Authentication required. Please set up API credentials.'') res0
              @ [End, End]
      in case accessToken of
           None \<Rightarrow> (unauthenticated, latestAnalysisResults)
         | Some token \<Rightarrow>
             if token = [] then (unauthenticated, latestAnalysisResults)
             else
               (let res1 = sendEvent (Status ''Fetching trending products...'' ''fetch'' None) res0;
                    empty = sendEvent (ErrorEvent ''No trending products found'') res1 @ [End, End]
                in case race_timeout (listing token 10) 15000 ''Fetch timeout'' of
                     Inl e \<Rightarrow> (sendEvent (ErrorEvent (message e)) res1 @ [End], latestAnalysisResults)
                   | Inr None \<Rightarrow> (empty, latestAnalysisResults)
                   | Inr (Some ps) \<Rightarrow>
                       if length ps = 0 then (empty, latestAnalysisResults)
                       else
                         (let res2 = sendEvent
                                (Status (''Found '' @ string_of_nat (length ps)
                                           @ '' products. Starting analysis...'')
                                   ''analyze'' (Some (length ps))) res1;
                              s = analysis_loop analyzer (length ps) 0 ps
                                    \<lparr>analyzedProducts = [], st_successCount = 0,
                                     st_errorCount = 0, out = res2\<rparr>;
                              finalData =
                                \<lparr>totalProducts = length (analyzedProducts s),
                                 successCount = st_successCount s,
                                 errorCount = st_errorCount s,
                                 timestamp = now,
                                 products = analyzedProducts s\<rparr>
                          in (sendEvent (Complete finalData) (out s @ [SetLatest finalData]) @ [End],
                              Some finalData))))"

text \<open>A JSON response: the status code and the body.\<close>

datatype body =
    ErrorBody string
  | SuccessBody nat string "analyzed_product list"
  | SummaryBody run_summary

datatype response = Json nat body

text \<open>\<open>GET /api/latest-results\<close>\<close>

definition latest_results :: "run_summary option \<Rightarrow> response" where
  "latest_results latestAnalysisResults =
     (case latestAnalysisResults of
        None \<Rightarrow> Json 404 (ErrorBody ''No analysis results available'')
      | Some r \<Rightarrow> Json 200 (SummaryBody r))"

text \<open>
  The process over a sequence of requests, each handled to its end before the next: the
  replies, and the variable threaded through. (A streaming run touches the variable in
  one assignment only, so runs that overlap in time act on it in the order of their
  assignments.)
\<close>

datatype request =
    AnalyzeStream "string option" "string \<Rightarrow> nat \<Rightarrow> product list option promise"
      "nat \<Rightarrow> product \<Rightarrow> jval promise" string
  | LatestResults

datatype reply = Streamed "action list" | Replied response

fun handle :: "request \<Rightarrow> run_summary option \<Rightarrow> reply \<times> run_summary option" where
  "handle (AnalyzeStream accessToken listing analyzer now) latest =
     (case analyze_stream_latest accessToken listing analyzer now latest of
        (res, latest') \<Rightarrow> (Streamed res, latest'))"
| "handle LatestResults latest = (Replied (latest_results latest), latest)"

fun serve :: "request list \<Rightarrow> run_summary option \<Rightarrow> reply list \<times> run_summary option" where
  "serve [] latest = ([], latest)"
| "serve (r # rs) latest =
     (case handle r latest of
        (x, latest') \<Rightarrow> (case serve rs latest' of (xs, latest'') \<Rightarrow> (x # xs, latest'')))"

section \<open>The bounded handler \<open>/api/quick-analyze\<close> (server.js)\<close>

text \<open>
  \<open>for (const product of products)\<close>: each analysis is awaited with no timer; a rejection
  leaves the loop for the \<open>catch\<close> block, and an analysis that never settles leaves the
  request unanswered.
\<close>

fun quick_loop ::
  "(nat \<Rightarrow> product \<Rightarrow> jval promise) \<Rightarrow> nat \<Rightarrow> product list \<Rightarrow> analyzed_product list \<Rightarrow>
   analyzed_product list awaited" where
  "quick_loop analyzer i [] acc = Returned acc"
| "quick_loop analyzer i (p # rest) acc =
     (case await (analyzer i p) of
        Returned a \<Rightarrow> quick_loop analyzer (i + 1) rest (acc @ [\<lparr>item = p, analysis = a\<rparr>])
      | Thrown e \<Rightarrow> Thrown e
      | Never \<Rightarrow> Never)"

text \<open>The handler: the response sent, or \<open>None\<close> when an awaited call never settles.\<close>

definition quick_analyze ::
  "string option \<Rightarrow> (string \<Rightarrow> nat \<Rightarrow> product list option promise) \<Rightarrow>
   (nat \<Rightarrow> product \<Rightarrow> jval promise) \<Rightarrow> string \<Rightarrow> response option" where
  "quick_analyze accessToken listing analyzer now =
     (let unauthenticated = Some (Json 401 (ErrorBody ''Authentication required''));
          not_found = Some (Json 404 (ErrorBody ''No products found''))
      in case accessToken of
           None \<Rightarrow> unauthenticated
         | Some token \<Rightarrow>
             if token = [] then unauthenticated
             else
               (case await (listing token 3) of
                  Never \<Rightarrow> None
                | Thrown e \<Rightarrow> Some (Json 500 (ErrorBody (message e)))
                | Returned None \<Rightarrow> not_found
                | Returned (Some ps) \<Rightarrow>
                    if length ps = 0 then not_found
                    else
                      (case quick_loop analyzer 0 ps [] of
                         Never \<Rightarrow> None
                       | Thrown e \<Rightarrow> Some (Json 500 (ErrorBody (message e)))
                       | Returned analyzed \<Rightarrow>
                           Some (Json 200 (SuccessBody (length analyzed) now analyzed)))))"

section \<open>The handlers wired to the services\<close>

text \<open>
  \<open>server.js\<close> passes the two service singletons to the handlers: the Listing Source's
  result is always an array, and each item is analyzed from \<open>retryCount = 0\<close>.
\<close>

definition listing_of :: "ph_world \<Rightarrow> string \<Rightarrow> nat \<Rightarrow> product list option promise" where
  "listing_of w accessToken limit = map_promise Some (getTrendingProducts w accessToken limit)"

definition analyzer_of :: "gpt_world \<Rightarrow> nat \<Rightarrow> product \<Rightarrow> jval promise" where
  "analyzer_of g k p = analyzeProduct g k p 0"

section \<open>Reading a response\<close>

text \<open>
  The vocabulary of the properties below. \<open>attach analyzer k p\<close> is the analyzed product
  the loop builds for item \<open>p\<close> at index \<open>k\<close>, \<open>in_time\<close> says whether the analyzer won
  its race, \<open>item_actions\<close> and \<open>item_frames\<close> are what one iteration does and sends,
  \<open>summary_of\<close> is the summary of a run over the items \<open>ps\<close>, and \<open>preamble\<close> is what a
  run does before the loop.
\<close>

definition attach :: "(nat \<Rightarrow> product \<Rightarrow> jval promise) \<Rightarrow> nat \<Rightarrow> product \<Rightarrow> analyzed_product" where
  "attach analyzer k p =
     (case race_timeout (analyzer k p) 8000 ''Analysis timeout'' of
        Inr a \<Rightarrow> \<lparr>item = p, analysis = a\<rparr>
      | Inl e \<Rightarrow> \<lparr>item = p, analysis = JObject (empty_object\<lparr>error := Some (message e)\<rparr>)\<rparr>)"

definition in_time :: "(nat \<Rightarrow> product \<Rightarrow> jval promise) \<Rightarrow> nat \<Rightarrow> product \<Rightarrow> bool" where
  "in_time analyzer k p =
     (case race_timeout (analyzer k p) 8000 ''Analysis timeout'' of
        Inr a \<Rightarrow> True
      | Inl e \<Rightarrow> False)"

definition item_actions ::
  "(nat \<Rightarrow> product \<Rightarrow> jval promise) \<Rightarrow> nat \<Rightarrow> nat \<Rightarrow> product \<Rightarrow> action list" where
  "item_actions analyzer n k p =
     [Frame (Progress (k + 1) n (name p) (''Analyzing '' @ name p @ ''...'')),
      Frame (ProductEvent (attach analyzer k p)),
      Sleep 200]"

definition item_frames ::
  "(nat \<Rightarrow> product \<Rightarrow> jval promise) \<Rightarrow> nat \<Rightarrow> nat \<Rightarrow> product \<Rightarrow> event list" where
  "item_frames analyzer n k p =
     [Progress (k + 1) n (name p) (''Analyzing '' @ name p @ ''...''),
      ProductEvent (attach analyzer k p)]"

definition summary_of ::
  "(nat \<Rightarrow> product \<Rightarrow> jval promise) \<Rightarrow> string \<Rightarrow> product list \<Rightarrow> run_summary" where
  "summary_of analyzer now ps =
     \<lparr>totalProducts = length ps,
      successCount = length (filter (\<lambda>(k, p). in_time analyzer k p) (enumerate 0 ps)),
      errorCount = length (filter (\<lambda>(k, p). \<not> in_time analyzer k p) (enumerate 0 ps)),
      timestamp = now,
      products = map (\<lambda>(k, p). attach analyzer k p) (enumerate 0 ps)\<rparr>"

definition preamble :: "nat \<Rightarrow> action list" where
  "preamble n =
     [WriteHead 200,
      Frame (Status ''Starting analysis...'' ''init'' None),
      Frame (Status ''Fetching trending products...'' ''fetch'' None),
      Frame (Status (''Found '' @ string_of_nat n @ '' products. Starting analysis...'')
               ''analyze'' (Some n))]"

text \<open>The \<open>current\<close> fields of the progress frames, and the payloads of the product frames.\<close>

fun progress_currents :: "event list \<Rightarrow> nat list" where
  "progress_currents [] = []"
| "progress_currents (Progress c n x m # es) = c # progress_currents es"
| "progress_currents (e # es) = progress_currents es"

fun product_events :: "event list \<Rightarrow> analyzed_product list" where
  "product_events [] = []"
| "product_events (ProductEvent ap # es) = ap # product_events es"
| "product_events (e # es) = product_events es"

text \<open>
  \<open>settles_before p ms\<close>: the promise settles, either way, before a timer of \<open>ms\<close>
  milliseconds fires. \<open>fetch_abort p\<close>: the message of the fetch phase's failure when the
  Listing Source answers with \<open>p\<close>, by the three causes: the 15000 ms ceiling elapses
  first, the source raises before it, or the fetch brings no item; \<open>None\<close> when the fetch
  brings items in time. \<open>sleeps\<close>: the timer sleeps of a response, in order.
\<close>

definition settles_before :: "'a promise \<Rightarrow> nat \<Rightarrow> bool" where
  "settles_before p ms =
     (case p of Resolves t v \<Rightarrow> t < ms | Rejects t e \<Rightarrow> t < ms | Pending \<Rightarrow> False)"

definition fetch_abort :: "product list option promise \<Rightarrow> string option" where
  "fetch_abort p =
     (case p of
        Pending \<Rightarrow> Some ''Fetch timeout''
      | Rejects t e \<Rightarrow> if t < 15000 then Some (message e) else Some ''Fetch timeout''
      | Resolves t None \<Rightarrow>
          if t < 15000 then Some ''No trending products found'' else Some ''Fetch timeout''
      | Resolves t (Some ps) \<Rightarrow>
          if t < 15000 then (if ps = [] then Some ''No trending products found'' else None)
          else Some ''Fetch timeout'')"

fun sleeps :: "action list \<Rightarrow> nat list" where
  "sleeps [] = []"
| "sleeps (Sleep ms # as) = ms # sleeps as"
| "sleeps (a # as) = sleeps as"

text \<open>
  For the variable \<open>latestAnalysisResults\<close>: the summaries a response assigns to it, the
  summaries its complete frames carry, the summary a request completes with (that of the
  complete frame of the run, as \<open>server.js\<close> sends it), and the summary of the last
  request of a sequence that completed, or the starting value when none did.
\<close>

fun writes :: "action list \<Rightarrow> run_summary list" where
  "writes [] = []"
| "writes (SetLatest r # as) = r # writes as"
| "writes (a # as) = writes as"

fun completes :: "event list \<Rightarrow> run_summary list" where
  "completes [] = []"
| "completes (Complete r # es) = r # completes es"
| "completes (e # es) = completes es"

fun completed :: "request \<Rightarrow> run_summary option" where
  "completed (AnalyzeStream accessToken listing analyzer now) =
     (case completes (frames (analyze_stream accessToken listing analyzer now)) of
        [] \<Rightarrow> None
      | r # rs \<Rightarrow> Some r)"
| "completed LatestResults = None"

fun last_completed :: "request list \<Rightarrow> run_summary option \<Rightarrow> run_summary option" where
  "last_completed [] latest = latest"
| "last_completed (rq # rqs) latest =
     last_completed rqs (case completed rq of None \<Rightarrow> latest | Some r \<Rightarrow> Some r)"

section \<open>Sample inputs\<close>

definition item_A :: product where
  "item_A =
     \<lparr>pid = ''1'', name = ''A'', tagline = ''first'', votesCount = Some 150,
      commentsCount = Some 3, createdAt = None, featuredAt = None,
      topics = [''Developer Tools'']\<rparr>"

definition item_B :: product where
  "item_B =
     \<lparr>pid = ''2'', name = ''B'', tagline = ''second'', votesCount = Some 5,
      commentsCount = None, createdAt = None, featuredAt = None, topics = []\<rparr>"

definition sample_analysis :: analysis where
  "sample_analysis = empty_object\<lparr>summary := Some ''fine''\<rparr>"

definition two_items :: "string \<Rightarrow> nat \<Rightarrow> product list option promise" where
  "two_items accessToken limit = Resolves 120 (Some [item_A, item_B])"

definition all_succeed :: "nat \<Rightarrow> product \<Rightarrow> jval promise" where
  "all_succeed k p = Resolves 50 (JObject sample_analysis)"

definition one_item :: "string \<Rightarrow> nat \<Rightarrow> product list option promise" where
  "one_item accessToken limit = Resolves 120 (Some [item_A])"

definition late_items :: "string \<Rightarrow> nat \<Rightarrow> product list option promise" where
  "late_items accessToken limit = Resolves 20000 (Some [item_A, item_B])"

definition second_raises :: "nat \<Rightarrow> product \<Rightarrow> jval promise" where
  "second_raises k p =
     (if k = 1 then Rejects 30 (new_Error ''boom'') else Resolves 50 (JObject sample_analysis))"

definition offline_world :: gpt_world where
  "offline_world =
     \<lparr>openai = False, create = (\<lambda>k r. Pending), JSON_parse = (\<lambda>s. ParseError), clock = ''now''\<rparr>"

definition rate_limited :: js_error where
  "rate_limited = \<lparr>message = ''Rate limit exceeded'', status = Some 429, code = None\<rparr>"

definition failing_world :: gpt_world where
  "failing_world =
     \<lparr>openai = True, create = (\<lambda>k r. Rejects 100 rate_limited),
      JSON_parse = (\<lambda>s. ParseError), clock = ''now''\<rparr>"

definition slow_items :: "string \<Rightarrow> nat \<Rightarrow> product list option promise" where
  "slow_items accessToken limit = Resolves 16000 (Some [item_A, item_B])"

definition slow_analyzer :: "nat \<Rightarrow> product \<Rightarrow> jval promise" where
  "slow_analyzer k p = Resolves 9000 (JObject sample_analysis)"

definition old_summary :: run_summary where
  "old_summary =
     \<lparr>totalProducts = 0, successCount = 0, errorCount = 0, timestamp = ''before'', products = []\<rparr>"

definition unreachable_world :: ph_world where
  "unreachable_world =
     \<lparr>graphql_post = (\<lambda>tok f r. Rejects 40 (new_Error ''Network Error'')),
      rest_get = (\<lambda>tok n. Rejects 60 (new_Error ''Network Error'')),
      todayStart = 0, date_now = 0, random_draw = (\<lambda>i. 0)\<rparr>"

definition no_items :: "string \<Rightarrow> nat \<Rightarrow> product list option promise" where
  "no_items accessToken limit = Resolves 5 (Some [])"

definition failing_listing :: "string \<Rightarrow> nat \<Rightarrow> product list option promise" where
  "failing_listing accessToken limit = Rejects 5 (new_Error ''down'')"

definition hanging_world :: gpt_world where
  "hanging_world =
     \<lparr>openai = True, create = (\<lambda>k r. Pending), JSON_parse = (\<lambda>s. ParseError), clock = ''now''\<rparr>"

definition empty_world :: ph_world where
  "empty_world =
     \<lparr>graphql_post = (\<lambda>tok f r. Resolves 40 \<lparr>gql_errors = None, gql_posts = Some []\<rparr>),
      rest_get = (\<lambda>tok n. Pending),
      todayStart = 0, date_now = 0, random_draw = (\<lambda>i. 0)\<rparr>"



section \<open>The analysis loop\<close>

declare string_of_nat.simps [simp del]

lemma loop_body_products:
  "analyzedProducts (loop_body analyzer n i p s) = analyzedProducts s @ [attach analyzer i p]"
  by (simp add: loop_body_def attach_def Let_def split: sum.splits)

lemma loop_body_out:
  "out (loop_body analyzer n i p s) = out s @ item_actions analyzer n i p"
  by (simp add: loop_body_def attach_def item_actions_def sendEvent_def Let_def split: sum.splits)

lemma loop_body_success:
  "st_successCount (loop_body analyzer n i p s) =
     st_successCount s + (if in_time analyzer i p then 1 else 0)"
  by (simp add: loop_body_def in_time_def Let_def split: sum.splits)

lemma loop_body_error:
  "st_errorCount (loop_body analyzer n i p s) =
     st_errorCount s + (if in_time analyzer i p then 0 else 1)"
  by (simp add: loop_body_def in_time_def Let_def split: sum.splits)

lemma loop_products:
  "analyzedProducts (analysis_loop analyzer n i ps s) =
     analyzedProducts s @ map (\<lambda>(k, p). attach analyzer k p) (enumerate i ps)"
  by (induction ps arbitrary: i s) (simp_all add: loop_body_products)

lemma loop_out:
  "out (analysis_loop analyzer n i ps s) =
     out s @ concat (map (\<lambda>(k, p). item_actions analyzer n k p) (enumerate i ps))"
  by (induction ps arbitrary: i s) (simp_all add: loop_body_out)

lemma loop_success:
  "st_successCount (analysis_loop analyzer n i ps s) =
     st_successCount s + length (filter (\<lambda>(k, p). in_time analyzer k p) (enumerate i ps))"
  by (induction ps arbitrary: i s) (simp_all add: loop_body_success)

lemma loop_error:
  "st_errorCount (analysis_loop analyzer n i ps s) =
     st_errorCount s + length (filter (\<lambda>(k, p). \<not> in_time analyzer k p) (enumerate i ps))"
  by (induction ps arbitrary: i s) (simp_all add: loop_body_error)

section \<open>A run that reaches the loop\<close>

lemma analyze_stream_complete:
  assumes "token \<noteq> []" and "listing token 10 = Resolves t (Some ps)" and "t < 15000"
    and "ps \<noteq> []"
  shows "analyze_stream (Some token) listing analyzer now =
           preamble (length ps)
           @ concat (map (\<lambda>(k, p). item_actions analyzer (length ps) k p) (enumerate 0 ps))
           @ [Frame (Complete (summary_of analyzer now ps)), End]"
  using assms
  by (simp add: analyze_stream_def race_timeout_def Let_def sendEvent_def loop_out loop_products
      loop_success loop_error summary_of_def preamble_def)

lemma frames_append: "frames (xs @ ys) = frames xs @ frames ys"
  by (induction xs rule: frames.induct) simp_all

lemma progress_currents_append:
  "progress_currents (xs @ ys) = progress_currents xs @ progress_currents ys"
  by (induction xs rule: progress_currents.induct) simp_all

lemma product_events_append:
  "product_events (xs @ ys) = product_events xs @ product_events ys"
  by (induction xs rule: product_events.induct) simp_all

lemma frames_items:
  "frames (concat (map (\<lambda>(k, p). item_actions analyzer n k p) (enumerate i ps))) =
     concat (map (\<lambda>(k, p). item_frames analyzer n k p) (enumerate i ps))"
  by (induction ps arbitrary: i) (simp_all add: item_actions_def item_frames_def frames_append)

lemma currents_items:
  "progress_currents (concat (map (\<lambda>(k, p). item_frames analyzer n k p) (enumerate i ps))) =
     [Suc i ..< Suc i + length ps]"
proof (induction ps arbitrary: i)
  case Nil
  show ?case by simp
next
  case (Cons p ps)
  have "[Suc i ..< Suc i + length (p # ps)] = Suc i # [Suc (Suc i) ..< Suc (Suc i) + length ps]"
    by (simp add: upt_rec)
  with Cons show ?case
    by (simp add: item_frames_def progress_currents_append)
qed

lemma products_items:
  "product_events (concat (map (\<lambda>(k, p). item_frames analyzer n k p) (enumerate i ps))) =
     map (\<lambda>(k, p). attach analyzer k p) (enumerate i ps)"
  by (induction ps arbitrary: i) (simp_all add: item_frames_def product_events_append)

lemma item_attach: "item (attach analyzer k p) = p"
  by (simp add: attach_def split: sum.splits)

lemma items_attached:
  "map item (map (\<lambda>(k, p). attach analyzer k p) (enumerate i ps)) = ps"
  by (induction ps arbitrary: i) (simp_all add: item_attach)

lemma enumerate_attached:
  "map g (enumerate i (map (\<lambda>(k, p). h k p) (enumerate i ps))) =
     map (\<lambda>(k, p). g (k, h k p)) (enumerate i ps)"
  by (induction ps arbitrary: i) simp_all

lemma frames_complete:
  assumes "token \<noteq> []" and "listing token 10 = Resolves t (Some ps)" and "t < 15000"
    and "ps \<noteq> []"
  shows "frames (analyze_stream (Some token) listing analyzer now) =
           [Status ''Starting analysis...'' ''init'' None,
            Status ''Fetching trending products...'' ''fetch'' None,
            Status (''Found '' @ string_of_nat (length ps) @ '' products. Starting analysis...'')
              ''analyze'' (Some (length ps))]
           @ concat (map (\<lambda>(k, p). item_frames analyzer (length ps) k p) (enumerate 0 ps))
           @ [Complete (summary_of analyzer now ps)]"
  using analyze_stream_complete [where token = token and listing = listing and t = t and ps = ps, OF assms]
  by (simp add: frames_append frames_items preamble_def)

section \<open>The order of the events\<close>

text \<open>
  C2. In a streaming run that fetches the items \<open>ps\<close> (the Listing Source resolves with
  them before the 15000 ms ceiling, and there is at least one), the frames sent are the
  three status frames, then for each item in the order fetched a progress frame whose
  \<open>current\<close> is the item's 1-based position followed by the product frame of that item,
  then the complete frame. So the \<open>current\<close> values read 1, 2, ..., N, and the product
  frames carry the items in fetch order.
\<close>

theorem C2_event_order:
  assumes "token \<noteq> []" and "listing token 10 = Resolves t (Some ps)" and "t < 15000"
    and "ps \<noteq> []"
  shows "\<exists>aps r. length aps = length ps \<and> map item aps = ps \<and>
           frames (analyze_stream (Some token) listing analyzer now) =
             [Status ''Starting analysis...'' ''init'' None,
              Status ''Fetching trending products...'' ''fetch'' None,
              Status (''Found '' @ string_of_nat (length ps) @ '' products. Starting analysis...'')
                ''analyze'' (Some (length ps))]
             @ concat (map (\<lambda>(k, ap).
                  [Progress (k + 1) (length ps) (name (item ap))
                     (''Analyzing '' @ name (item ap) @ ''...''),
                   ProductEvent ap]) (enumerate 0 aps))
             @ [Complete r] \<and>
           progress_currents (frames (analyze_stream (Some token) listing analyzer now)) =
             [1 ..< Suc (length ps)] \<and>
           map item (product_events (frames (analyze_stream (Some token) listing analyzer now))) = ps"
proof -
  let ?aps = "map (\<lambda>(k, p). attach analyzer k p) (enumerate 0 ps)"
  let ?g = "\<lambda>(k, ap). [Progress (k + 1) (length ps) (name (item ap))
                     (''Analyzing '' @ name (item ap) @ ''...''), ProductEvent ap]"
  have fr: "frames (analyze_stream (Some token) listing analyzer now) =
           [Status ''Starting analysis...'' ''init'' None,
            Status ''Fetching trending products...'' ''fetch'' None,
            Status (''Found '' @ string_of_nat (length ps) @ '' products. Starting analysis...'')
              ''analyze'' (Some (length ps))]
           @ concat (map (\<lambda>(k, p). item_frames analyzer (length ps) k p) (enumerate 0 ps))
           @ [Complete (summary_of analyzer now ps)]"
    using frames_complete [where token = token and listing = listing and t = t and ps = ps, OF assms] .
  have "map ?g (enumerate 0 ?aps) =
          map (\<lambda>(k, p). item_frames analyzer (length ps) k p) (enumerate 0 ps)"
    by (simp add: enumerate_attached item_frames_def item_attach)
  then have shape: "frames (analyze_stream (Some token) listing analyzer now) =
             [Status ''Starting analysis...'' ''init'' None,
              Status ''Fetching trending products...'' ''fetch'' None,
              Status (''Found '' @ string_of_nat (length ps) @ '' products. Starting analysis...'')
                ''analyze'' (Some (length ps))]
             @ concat (map ?g (enumerate 0 ?aps))
             @ [Complete (summary_of analyzer now ps)]"
    using fr by simp
  have cur: "progress_currents (frames (analyze_stream (Some token) listing analyzer now)) =
             [1 ..< Suc (length ps)]"
    by (simp add: fr progress_currents_append currents_items)
  have prods: "map item (product_events (frames (analyze_stream (Some token) listing analyzer now))) = ps"
    using items_attached [of analyzer 0 ps]
    by (simp add: fr product_events_append products_items)
  have "length ?aps = length ps" by simp
  moreover have "map item ?aps = ps" by (rule items_attached)
  ultimately show ?thesis using shape cur prods by blast
qed

theorem C2_event_order_witness:
  "''tok'' \<noteq> [] \<and> two_items ''tok'' 10 = Resolves 120 (Some [item_A, item_B]) \<and>
   (120 :: nat) < 15000 \<and> [item_A, item_B] \<noteq> [] \<and>
   progress_currents (frames (analyze_stream (Some ''tok'') two_items all_succeed ''now'')) = [1, 2] \<and>
   map item (product_events (frames (analyze_stream (Some ''tok'') two_items all_succeed ''now'')))
     = [item_A, item_B]"
proof -
  have h: "two_items ''tok'' 10 = Resolves 120 (Some [item_A, item_B])"
    by (simp add: two_items_def)
  have "[1 ..< Suc (length [item_A, item_B])] = [1, 2]"
    by (simp add: upt_rec)
  with h show ?thesis
    using C2_event_order [where token = "''tok''" and listing = two_items and t = 120
        and ps = "[item_A, item_B]" and analyzer = all_succeed and now = "''now''"]
    by auto
qed

section \<open>The analyzer never rejects\<close>

declare analyzeProduct.simps [simp del]

lemma analyzeProduct_settled:
  "analyzeProduct g k p r = Pending \<or> (\<exists>t a. analyzeProduct g k p r = Resolves t (JObject a))"
proof (induction g k p r rule: analyzeProduct.induct)
  case (1 w k p retryCount)
  show ?case
  proof (cases "try_block w k p retryCount")
    case None
    then show ?thesis by (subst analyzeProduct.simps) simp
  next
    case (Some te)
    obtain t x where te: "te = (t, x)" by (cases te)
    show ?thesis
    proof (cases x)
      case (Inr a)
      with Some te show ?thesis by (subst analyzeProduct.simps) simp
    next
      case (Inl e)
      show ?thesis
      proof (cases "retryCount < gpt_maxRetries \<and> shouldRetry e")
        case True
        with "1.IH" [OF Some te [symmetric] Inl]
        have "analyzeProduct w k p (retryCount + 1) = Pending \<or>
              (\<exists>t a. analyzeProduct w k p (retryCount + 1) = Resolves t (JObject a))"
          by simp
        then show ?thesis
          using Some te Inl True
          by (subst (1 2) analyzeProduct.simps) auto
      next
        case False
        with Some te Inl show ?thesis by (subst analyzeProduct.simps) auto
      qed
    qed
  qed
qed

lemma analyzeProduct_fallback:
  "\<not> openai g \<Longrightarrow> analyzeProduct g k p r = Resolves 0 (JObject (createFallbackAnalysis (clock g) p))"
  by (subst analyzeProduct.simps) (simp add: try_block_def)

lemma analyzeProduct_gives_up:
  "openai g \<Longrightarrow> create g k r = Rejects t e \<Longrightarrow> \<not> (r < gpt_maxRetries \<and> shouldRetry e) \<Longrightarrow>
   analyzeProduct g k p r = Resolves t (JObject (errorAnalysis (clock g) e))"
  by (subst analyzeProduct.simps) (auto simp add: try_block_def)

lemma analyzeProduct_retries:
  "openai g \<Longrightarrow> create g k r = Rejects t e \<Longrightarrow> r < gpt_maxRetries \<Longrightarrow> shouldRetry e \<Longrightarrow>
   analyzeProduct g k p r = after (t + gpt_retryDelay) (analyzeProduct g k p (Suc r))"
  by (subst analyzeProduct.simps) (simp add: try_block_def)

lemma analyzeProduct_exhausts:
  assumes "openai g"
    and "create g k 0 = Rejects t0 e0" and "shouldRetry e0"
    and "create g k 1 = Rejects t1 e1" and "shouldRetry e1"
    and "create g k 2 = Rejects t2 e2" and "shouldRetry e2"
    and "create g k 3 = Rejects t3 e3"
  shows "analyzeProduct g k p 0 =
           Resolves (t0 + 2000 + (t1 + 2000 + (t2 + 2000 + t3))) (JObject (errorAnalysis (clock g) e3))"
proof -
  have c1: "create g k (Suc 0) = Rejects t1 e1"
    and c2: "create g k (Suc (Suc 0)) = Rejects t2 e2"
    and c3: "create g k (Suc (Suc (Suc 0))) = Rejects t3 e3"
    using assms by (simp_all add: eval_nat_numeral)
  have r3: "analyzeProduct g k p (Suc (Suc (Suc 0))) = Resolves t3 (JObject (errorAnalysis (clock g) e3))"
    using assms(1) c3 by (rule analyzeProduct_gives_up) (simp add: gpt_maxRetries_def)
  have r2: "analyzeProduct g k p (Suc (Suc 0)) =
              after (t2 + gpt_retryDelay) (analyzeProduct g k p (Suc (Suc (Suc 0))))"
    using assms(1) c2 by (rule analyzeProduct_retries) (simp_all add: gpt_maxRetries_def assms)
  have r1: "analyzeProduct g k p (Suc 0) =
              after (t1 + gpt_retryDelay) (analyzeProduct g k p (Suc (Suc 0)))"
    using assms(1) c1 by (rule analyzeProduct_retries) (simp_all add: gpt_maxRetries_def assms)
  have r0: "analyzeProduct g k p 0 = after (t0 + gpt_retryDelay) (analyzeProduct g k p (Suc 0))"
    using assms(1,2) by (rule analyzeProduct_retries) (simp_all add: gpt_maxRetries_def assms)
  show ?thesis by (simp add: r0 r1 r2 r3 gpt_retryDelay_def)
qed

lemma try_block_settles:
  "create g k r \<noteq> Pending \<Longrightarrow> \<exists>t x. try_block g k p r = Some (t, x)"
  by (cases "create g k r") (simp_all add: try_block_def)

lemma analyzeProduct_resolves:
  "\<forall>r'. create g k r' \<noteq> Pending \<Longrightarrow> \<exists>t a. analyzeProduct g k p r = Resolves t (JObject a)"
proof (induction g k p r rule: analyzeProduct.induct)
  case (1 w k p retryCount)
  from "1.prems" obtain t x where tb: "try_block w k p retryCount = Some (t, x)"
    using try_block_settles by blast
  show ?case
  proof (cases x)
    case (Inr a)
    with tb show ?thesis by (subst analyzeProduct.simps) simp
  next
    case (Inl e)
    show ?thesis
    proof (cases "retryCount < gpt_maxRetries \<and> shouldRetry e")
      case True
      with "1.IH" [OF tb refl Inl] "1.prems"
      obtain t' a where "analyzeProduct w k p (retryCount + 1) = Resolves t' (JObject a)"
        by blast
      then show ?thesis
        using tb Inl True by (subst analyzeProduct.simps) simp
    next
      case False
      with tb Inl show ?thesis by (subst analyzeProduct.simps) auto
    qed
  qed
qed

lemma analyzer_race:
  "race_timeout (analyzer_of g k p) 8000 ''Analysis timeout'' = Inl e \<Longrightarrow>
   e = new_Error ''Analysis timeout''"
  using analyzeProduct_settled [of g k p 0]
  by (auto simp add: race_timeout_def analyzer_of_def split: if_splits)

text \<open>
  C9. \<open>analyzeProduct\<close> never rejects, at any attempt and in any world: whenever it settles
  it resolves, and with an object. It does settle when the API calls it makes settle.
  Without an API client it resolves at once with the rule-based fallback analysis. When a
  call fails and the failure is not retried (the three retries are used up, or the error
  is not one to retry), it resolves with an analysis whose \<open>error\<close> field is the failure
  message; four retryable failures in a row end so, after three delays of 2000 ms. Hence
  the race of the streaming handler can only throw the timer's own error.
\<close>

theorem C9_analyzer_never_rejects:
  "(\<forall>t e. analyzeProduct g k p r \<noteq> Rejects t e) \<and>
   (\<forall>t v. analyzeProduct g k p r = Resolves t v \<longrightarrow> (\<exists>a. v = JObject a)) \<and>
   ((\<forall>r'. create g k r' \<noteq> Pending) \<longrightarrow> (\<exists>t a. analyzeProduct g k p r = Resolves t (JObject a))) \<and>
   (\<not> openai g \<longrightarrow>
      analyzeProduct g k p r = Resolves 0 (JObject (createFallbackAnalysis (clock g) p))) \<and>
   (\<forall>t e. openai g \<and> create g k r = Rejects t e \<and> \<not> (r < gpt_maxRetries \<and> shouldRetry e) \<longrightarrow>
      (\<exists>a. analyzeProduct g k p r = Resolves t (JObject a) \<and> error a = Some (message e))) \<and>
   (\<forall>t0 e0 t1 e1 t2 e2 t3 e3.
      openai g \<and> create g k 0 = Rejects t0 e0 \<and> shouldRetry e0 \<and>
      create g k 1 = Rejects t1 e1 \<and> shouldRetry e1 \<and>
      create g k 2 = Rejects t2 e2 \<and> shouldRetry e2 \<and>
      create g k 3 = Rejects t3 e3 \<longrightarrow>
      (\<exists>a. analyzeProduct g k p 0 =
              Resolves (t0 + 2000 + (t1 + 2000 + (t2 + 2000 + t3))) (JObject a) \<and>
            error a = Some (message e3))) \<and>
   (\<forall>e. race_timeout (analyzer_of g k p) 8000 ''Analysis timeout'' = Inl e \<longrightarrow>
      e = new_Error ''Analysis timeout'')"
proof (intro conjI allI impI)
  fix t e
  show "analyzeProduct g k p r \<noteq> Rejects t e"
    using analyzeProduct_settled [of g k p r] by auto
next
  fix t v
  assume "analyzeProduct g k p r = Resolves t v"
  then show "\<exists>a. v = JObject a"
    using analyzeProduct_settled [of g k p r] by auto
next
  assume "\<forall>r'. create g k r' \<noteq> Pending"
  then show "\<exists>t a. analyzeProduct g k p r = Resolves t (JObject a)"
    by (rule analyzeProduct_resolves)
next
  assume "\<not> openai g"
  then show "analyzeProduct g k p r = Resolves 0 (JObject (createFallbackAnalysis (clock g) p))"
    by (rule analyzeProduct_fallback)
next
  fix t e
  assume "openai g \<and> create g k r = Rejects t e \<and> \<not> (r < gpt_maxRetries \<and> shouldRetry e)"
  then have "analyzeProduct g k p r = Resolves t (JObject (errorAnalysis (clock g) e))"
    using analyzeProduct_gives_up [of g k r t e p] by blast
  then show "\<exists>a. analyzeProduct g k p r = Resolves t (JObject a) \<and> error a = Some (message e)"
    by (simp add: errorAnalysis_def)
next
  fix t0 e0 t1 e1 t2 e2 t3 e3
  assume "openai g \<and> create g k 0 = Rejects t0 e0 \<and> shouldRetry e0 \<and>
      create g k 1 = Rejects t1 e1 \<and> shouldRetry e1 \<and>
      create g k 2 = Rejects t2 e2 \<and> shouldRetry e2 \<and>
      create g k 3 = Rejects t3 e3"
  then have "analyzeProduct g k p 0 =
           Resolves (t0 + 2000 + (t1 + 2000 + (t2 + 2000 + t3))) (JObject (errorAnalysis (clock g) e3))"
    using analyzeProduct_exhausts [of g k t0 e0 t1 e1 t2 e2 t3 e3 p] by blast
  then show "\<exists>a. analyzeProduct g k p 0 =
              Resolves (t0 + 2000 + (t1 + 2000 + (t2 + 2000 + t3))) (JObject a) \<and>
            error a = Some (message e3)"
    by (simp add: errorAnalysis_def)
next
  fix e
  assume "race_timeout (analyzer_of g k p) 8000 ''Analysis timeout'' = Inl e"
  then show "e = new_Error ''Analysis timeout''"
    by (rule analyzer_race)
qed

theorem C9_analyzer_never_rejects_witness:
  "(\<not> openai offline_world \<and>
   analyzeProduct offline_world 0 item_A 0 =
     Resolves 0 (JObject (createFallbackAnalysis ''now'' item_A)) \<and>
   openai failing_world \<and>
   create failing_world 0 3 = Rejects 100 rate_limited \<and>
   (\<exists>a. analyzeProduct failing_world 0 item_A 3 = Resolves 100 (JObject a) \<and>
        error a = Some ''Rate limit exceeded'') \<and>
   (\<exists>a. analyzeProduct failing_world 0 item_A 0 = Resolves 6400 (JObject a) \<and>
        error a = Some ''Rate limit exceeded'')) \<and>
   ((\<forall>r'. create failing_world 0 r' \<noteq> Pending) \<and>
   race_timeout (analyzer_of hanging_world 0 item_A) 8000 ''Analysis timeout'' =
     Inl (new_Error ''Analysis timeout''))"
proof
  show "\<not> openai offline_world \<and>
   analyzeProduct offline_world 0 item_A 0 =
     Resolves 0 (JObject (createFallbackAnalysis ''now'' item_A)) \<and>
   openai failing_world \<and>
   create failing_world 0 3 = Rejects 100 rate_limited \<and>
   (\<exists>a. analyzeProduct failing_world 0 item_A 3 = Resolves 100 (JObject a) \<and>
        error a = Some ''Rate limit exceeded'') \<and>
   (\<exists>a. analyzeProduct failing_world 0 item_A 0 = Resolves 6400 (JObject a) \<and>
        error a = Some ''Rate limit exceeded'')"
  proof -
    have off: "\<not> openai offline_world" "clock offline_world = ''now''"
      by (simp_all add: offline_world_def)
    have on: "openai failing_world" "\<And>r. create failing_world 0 r = Rejects 100 rate_limited"
      "\<not> (3 < gpt_maxRetries \<and> shouldRetry rate_limited)" "shouldRetry rate_limited"
      "message rate_limited = ''Rate limit exceeded''"
      by (simp_all add: failing_world_def gpt_maxRetries_def shouldRetry_def rate_limited_def)
    have 1: "analyzeProduct offline_world 0 item_A 0 =
       Resolves 0 (JObject (createFallbackAnalysis ''now'' item_A))"
      using C9_analyzer_never_rejects [of offline_world 0 item_A 0] off by simp
    have 2: "\<exists>a. analyzeProduct failing_world 0 item_A 3 = Resolves 100 (JObject a) \<and>
          error a = Some ''Rate limit exceeded''"
      using C9_analyzer_never_rejects [of failing_world 0 item_A 3] on by metis
    have "\<exists>a. analyzeProduct failing_world 0 item_A 0 =
                Resolves (100 + 2000 + (100 + 2000 + (100 + 2000 + 100))) (JObject a) \<and>
              error a = Some (message rate_limited)"
      using C9_analyzer_never_rejects [of failing_world 0 item_A 0] on by blast
    then have 3: "\<exists>a. analyzeProduct failing_world 0 item_A 0 = Resolves 6400 (JObject a) \<and>
          error a = Some ''Rate limit exceeded''"
      using on(5) by simp
    from off(1) on(1) on(2) 1 2 3 show ?thesis by blast
  qed
  show "(\<forall>r'. create failing_world 0 r' \<noteq> Pending) \<and>
   race_timeout (analyzer_of hanging_world 0 item_A) 8000 ''Analysis timeout'' =
     Inl (new_Error ''Analysis timeout'')"
  proof -
    have "\<exists>e. race_timeout (analyzer_of hanging_world 0 item_A) 8000 ''Analysis timeout'' = Inl e"
      by (subst analyzer_of_def, subst analyzeProduct.simps)
        (simp add: try_block_def hanging_world_def race_timeout_def)
    then obtain e where e: "race_timeout (analyzer_of hanging_world 0 item_A) 8000 ''Analysis timeout'' = Inl e"
      by blast
    with C9_analyzer_never_rejects [of hanging_world 0 item_A 0]
    have "e = new_Error ''Analysis timeout''"
      by blast
    with e show ?thesis
      by (simp add: failing_world_def)
  qed
qed


section \<open>Every item ends with one analysis\<close>

lemma sleeps_append: "sleeps (xs @ ys) = sleeps xs @ sleeps ys"
  by (induction xs rule: sleeps.induct) simp_all

lemma sleeps_items:
  "sleeps (concat (map (\<lambda>(k, p). item_actions analyzer n k p) (enumerate i ps))) =
     replicate (length ps) 200"
  by (induction ps arbitrary: i) (simp_all add: item_actions_def sleeps_append)

lemma attach_wired:
  "\<exists>a. attach (analyzer_of g) k p = \<lparr>item = p, analysis = JObject a\<rparr> \<and>
       ((\<exists>t. analyzer_of g k p = Resolves t (JObject a) \<and> t < 8000) \<or>
        a = empty_object\<lparr>error := Some ''Analysis timeout''\<rparr>)"
  using analyzeProduct_settled [of g k p 0]
  by (auto simp add: attach_def race_timeout_def analyzer_of_def new_Error_def)

lemma summary_counts:
  "successCount (summary_of analyzer now ps) + errorCount (summary_of analyzer now ps) = length ps"
proof -
  have "(\<lambda>(k, p). \<not> in_time analyzer k p) = (\<lambda>x. \<not> (case x of (k, p) \<Rightarrow> in_time analyzer k p))"
    by auto
  then show ?thesis
    using sum_length_filter_compl [of "\<lambda>(k, p). in_time analyzer k p" "enumerate 0 ps"]
    by (simp add: summary_of_def)
qed

lemma nth_attached:
  "i < length ps \<Longrightarrow>
   map (\<lambda>(k, p). attach analyzer k p) (enumerate j ps) ! i = attach analyzer (j + i) (ps ! i)"
  by (simp add: nth_enumerate_eq)





text \<open>
  C1. In a streaming run that fetches the items \<open>ps\<close> and analyzes them with
  \<open>chatGPTService.analyzeProduct\<close>, in any world, the last frame is the complete frame,
  and its summary \<open>r\<close> satisfies \<open>successCount + errorCount = totalProducts\<close>,
  \<open>totalProducts\<close> is the length of \<open>products\<close>, which is the number of items fetched,
  and the product at each position is the item fetched at that position with an analysis
  that is an object (never \<open>null\<close>): the object the analyzer resolved with before the
  8000 ms ceiling, or the failure object whose \<open>error\<close> field holds the timeout message.
\<close>

theorem C1_totality:
  assumes "token \<noteq> []" and "listing token 10 = Resolves t (Some ps)" and "t < 15000"
    and "ps \<noteq> []"
  shows "\<exists>r. last (frames (analyze_stream (Some token) listing (analyzer_of g) now)) = Complete r \<and>
           successCount r + errorCount r = totalProducts r \<and>
           totalProducts r = length (products r) \<and>
           length (products r) = length ps \<and>
           (\<forall>i < length ps. \<exists>a.
              products r ! i = \<lparr>item = ps ! i, analysis = JObject a\<rparr> \<and>
              ((\<exists>t'. analyzer_of g i (ps ! i) = Resolves t' (JObject a) \<and> t' < 8000) \<or>
               a = empty_object\<lparr>error := Some ''Analysis timeout''\<rparr>))"
proof -
  let ?r = "summary_of (analyzer_of g) now ps"
  have "last (frames (analyze_stream (Some token) listing (analyzer_of g) now)) = Complete ?r"
    using frames_complete [where token = token and listing = listing and t = t and ps = ps, OF assms]
    by simp
  moreover have "successCount ?r + errorCount ?r = totalProducts ?r"
    using summary_counts [of "analyzer_of g" now ps] by (simp add: summary_of_def)
  moreover have "totalProducts ?r = length (products ?r)" and "length (products ?r) = length ps"
    by (simp_all add: summary_of_def)
  moreover have "\<forall>i < length ps. \<exists>a.
              products ?r ! i = \<lparr>item = ps ! i, analysis = JObject a\<rparr> \<and>
              ((\<exists>t'. analyzer_of g i (ps ! i) = Resolves t' (JObject a) \<and> t' < 8000) \<or>
               a = empty_object\<lparr>error := Some ''Analysis timeout''\<rparr>)"
  proof (intro allI impI)
    fix i assume "i < length ps"
    then have "products ?r ! i = attach (analyzer_of g) i (ps ! i)"
      using nth_attached [of i ps "analyzer_of g" 0] by (simp add: summary_of_def)
    with attach_wired [of g i "ps ! i"] show "\<exists>a.
              products ?r ! i = \<lparr>item = ps ! i, analysis = JObject a\<rparr> \<and>
              ((\<exists>t'. analyzer_of g i (ps ! i) = Resolves t' (JObject a) \<and> t' < 8000) \<or>
               a = empty_object\<lparr>error := Some ''Analysis timeout''\<rparr>)"
      by auto
  qed
  ultimately show ?thesis by blast
qed

theorem C1_totality_witness:
  "''tok'' \<noteq> [] \<and> two_items ''tok'' 10 = Resolves 120 (Some [item_A, item_B]) \<and>
   (120 :: nat) < 15000 \<and> [item_A, item_B] \<noteq> [] \<and>
   (\<exists>r. last (frames (analyze_stream (Some ''tok'') two_items (analyzer_of offline_world) ''now''))
          = Complete r \<and>
        successCount r + errorCount r = totalProducts r \<and>
        totalProducts r = length (products r) \<and>
        length (products r) = 2)"
proof -
  have h: "two_items ''tok'' 10 = Resolves 120 (Some [item_A, item_B])"
    by (simp add: two_items_def)
  show ?thesis
    using h C1_totality [where token = "''tok''" and listing = two_items and t = 120
        and ps = "[item_A, item_B]" and g = offline_world and now = "''now''"]
    by auto
qed

section \<open>A failing item does not stop the run\<close>




section \<open>The fetch phase\<close>

lemma abort_run:
  assumes "token \<noteq> []" and "fetch_abort (listing token 10) = Some m"
  shows "analyze_stream (Some token) listing analyzer now =
           [WriteHead 200,
            Frame (Status ''Starting analysis...'' ''init'' None),
            Frame (Status ''Fetching trending products...'' ''fetch'' None),
            Frame (ErrorEvent m), End]
         \<or> analyze_stream (Some token) listing analyzer now =
           [WriteHead 200,
            Frame (Status ''Starting analysis...'' ''init'' None),
            Frame (Status ''Fetching trending products...'' ''fetch'' None),
            Frame (ErrorEvent m), End, End]"
  using assms
  by (auto simp add: analyze_stream_def fetch_abort_def race_timeout_def sendEvent_def Let_def
      new_Error_def split: promise.splits option.splits if_splits)

text \<open>
  C4. With a credential, the Listing Source call is raced against a timer of 15000 ms.
  When the fetch phase fails (\<open>fetch_abort\<close>: the call has not settled when the timer
  fires, or it rejects before that, or it resolves in time with no item), the frames of
  the run are the two status frames and one error frame with the failure's message, the
  response is then ended, and there is no progress, product or complete frame. A list
  that arrives after the ceiling is not used.
\<close>

theorem C4_fetch_abort:
  assumes "token \<noteq> []" and "fetch_abort (listing token 10) = Some m"
  shows "frames (analyze_stream (Some token) listing analyzer now) =
           [Status ''Starting analysis...'' ''init'' None,
            Status ''Fetching trending products...'' ''fetch'' None,
            ErrorEvent m] \<and>
         last (analyze_stream (Some token) listing analyzer now) = End \<and>
         progress_currents (frames (analyze_stream (Some token) listing analyzer now)) = [] \<and>
         product_events (frames (analyze_stream (Some token) listing analyzer now)) = [] \<and>
         (\<forall>r. Complete r \<notin> set (frames (analyze_stream (Some token) listing analyzer now)))"
  using abort_run [where token = token and listing = listing and m = m
      and analyzer = analyzer and now = now, OF assms]
  by auto

theorem C4_fetch_abort_witness:
  "''tok'' \<noteq> [] \<and> fetch_abort (late_items ''tok'' 10) = Some ''Fetch timeout'' \<and>
   frames (analyze_stream (Some ''tok'') late_items all_succeed ''now'') =
     [Status ''Starting analysis...'' ''init'' None,
      Status ''Fetching trending products...'' ''fetch'' None,
      ErrorEvent ''Fetch timeout''] \<and>
   last (analyze_stream (Some ''tok'') late_items all_succeed ''now'') = End \<and>
   product_events (frames (analyze_stream (Some ''tok'') late_items all_succeed ''now'')) = []"
proof -
  have h: "fetch_abort (late_items ''tok'' 10) = Some ''Fetch timeout''"
    by (simp add: fetch_abort_def late_items_def)
  show ?thesis
    using h C4_fetch_abort [where token = "''tok''" and listing = late_items
        and m = "''Fetch timeout''" and analyzer = all_succeed and now = "''now''"]
    by simp
qed

section \<open>No credential\<close>

text \<open>
  C5, as the code has it. When the Credential Provider returns no token (\<open>null\<close>, or the
  empty string), the handler has already sent the \<open>init\<close> status frame; it then sends
  exactly one error frame and ends the response. Nothing follows the error frame: no
  further status frame, and no progress, product or complete frame.
\<close>

theorem C5_no_credential:
  assumes "accessToken = None \<or> accessToken = Some []"
  shows "analyze_stream accessToken listing analyzer now =
           [WriteHead 200,
            Frame (Status ''Starting analysis...'' ''init'' None),
            Frame (ErrorEvent ''Authentication required. Please set up API credentials.''),
            End, End]"
  using assms by (auto simp add: analyze_stream_def sendEvent_def Let_def)

theorem C5_no_credential_witness:
  "frames (analyze_stream None two_items all_succeed ''now'') =
     [Status ''Starting analysis...'' ''init'' None,
      ErrorEvent ''Authentication required. Please set up API credentials.'']"
  using C5_no_credential [of None two_items all_succeed "''now''"] by simp

text \<open>
  The claim as stated, that the trace of such a run holds no status frame, fails: the
  \<open>init\<close> status frame is sent before the credential is looked at.
\<close>

theorem C5_status_precedes_error:
  "Status ''Starting analysis...'' ''init'' None
     \<in> set (frames (analyze_stream None two_items all_succeed ''now''))"
  by (simp add: analyze_stream_def sendEvent_def Let_def)

section \<open>The delay between items\<close>

lemma last_item:
  assumes "ps \<noteq> []"
  shows "\<exists>pre. concat (map (\<lambda>(k, p). item_actions analyzer n k p) (enumerate i ps)) =
           pre @ [Frame (ProductEvent (attach analyzer (i + length ps - 1) (last ps))), Sleep 200]"
proof -
  from assms obtain qs q where ps: "ps = qs @ [q]"
    by (metis append_butlast_last_id)
  show ?thesis
    by (simp add: ps enumerate_append_eq item_actions_def)
qed

text \<open>
  C6, as the code has it. In a streaming run that fetches the items \<open>ps\<close>, each iteration
  of the loop is: the progress frame, the product frame, a sleep of 200 ms. The sleep
  follows the product frame whether the analysis succeeded or failed, and it follows the
  last item too: there are as many sleeps as items, and the last one stands between
  the last product frame and the complete frame.
\<close>

theorem C6_delay_after_every_item:
  assumes "token \<noteq> []" and "listing token 10 = Resolves t (Some ps)" and "t < 15000"
    and "ps \<noteq> []"
  shows "\<exists>aps r. map item aps = ps \<and>
           analyze_stream (Some token) listing analyzer now =
             [WriteHead 200,
              Frame (Status ''Starting analysis...'' ''init'' None),
              Frame (Status ''Fetching trending products...'' ''fetch'' None),
              Frame (Status (''Found '' @ string_of_nat (length ps)
                               @ '' products. Starting analysis...'') ''analyze'' (Some (length ps)))]
             @ concat (map (\<lambda>(k, ap).
                  [Frame (Progress (k + 1) (length ps) (name (item ap))
                            (''Analyzing '' @ name (item ap) @ ''...'')),
                   Frame (ProductEvent ap),
                   Sleep 200]) (enumerate 0 aps))
             @ [Frame (Complete r), End] \<and>
           sleeps (analyze_stream (Some token) listing analyzer now) = replicate (length ps) 200 \<and>
           (\<exists>pre. analyze_stream (Some token) listing analyzer now =
                    pre @ [Frame (ProductEvent (last aps)), Sleep 200, Frame (Complete r), End])"
proof -
  let ?run = "analyze_stream (Some token) listing analyzer now"
  let ?aps = "map (\<lambda>(k, p). attach analyzer k p) (enumerate 0 ps)"
  let ?g = "\<lambda>(k, ap). [Frame (Progress (k + 1) (length ps) (name (item ap))
                            (''Analyzing '' @ name (item ap) @ ''...'')),
                   Frame (ProductEvent ap), Sleep 200]"
  let ?r = "summary_of analyzer now ps"
  have run: "?run = preamble (length ps)
           @ concat (map (\<lambda>(k, p). item_actions analyzer (length ps) k p) (enumerate 0 ps))
           @ [Frame (Complete ?r), End]"
    using analyze_stream_complete [where token = token and listing = listing and t = t and ps = ps,
        OF assms] .
  have "map ?g (enumerate 0 ?aps) =
          map (\<lambda>(k, p). item_actions analyzer (length ps) k p) (enumerate 0 ps)"
    by (simp add: enumerate_attached item_actions_def item_attach)
  then have shape: "?run =
             [WriteHead 200,
              Frame (Status ''Starting analysis...'' ''init'' None),
              Frame (Status ''Fetching trending products...'' ''fetch'' None),
              Frame (Status (''Found '' @ string_of_nat (length ps)
                               @ '' products. Starting analysis...'') ''analyze'' (Some (length ps)))]
             @ concat (map ?g (enumerate 0 ?aps))
             @ [Frame (Complete ?r), End]"
    using run by (simp add: preamble_def)
  have sl: "sleeps ?run = replicate (length ps) 200"
    by (simp add: run sleeps_append sleeps_items preamble_def)
  have "enumerate 0 ps \<noteq> []"
    using assms(4) by (cases ps) simp_all
  then have la: "last ?aps = attach analyzer (length ps - 1) (last ps)"
    using assms(4) by (simp add: last_conv_nth nth_enumerate_eq)
  obtain pre where "concat (map (\<lambda>(k, p). item_actions analyzer (length ps) k p) (enumerate 0 ps)) =
           pre @ [Frame (ProductEvent (attach analyzer (0 + length ps - 1) (last ps))), Sleep 200]"
    using last_item [OF assms(4)] by blast
  then have tail: "?run = (preamble (length ps) @ pre)
      @ [Frame (ProductEvent (last ?aps)), Sleep 200, Frame (Complete ?r), End]"
    by (simp add: run la)
  have "map item ?aps = ps" by (rule items_attached)
  with shape sl tail show ?thesis by blast
qed

theorem C6_delay_after_every_item_witness:
  "''tok'' \<noteq> [] \<and> two_items ''tok'' 10 = Resolves 120 (Some [item_A, item_B]) \<and>
   (120 :: nat) < 15000 \<and> [item_A, item_B] \<noteq> [] \<and>
   sleeps (analyze_stream (Some ''tok'') two_items second_raises ''now'') = [200, 200]"
proof -
  have h: "two_items ''tok'' 10 = Resolves 120 (Some [item_A, item_B])"
    by (simp add: two_items_def)
  have "replicate (length [item_A, item_B]) (200 :: nat) = [200, 200]"
    by (simp add: numeral_2_eq_2)
  with h show ?thesis
    using C6_delay_after_every_item [where token = "''tok''" and listing = two_items and t = 120
        and ps = "[item_A, item_B]" and analyzer = second_raises and now = "''now''"]
    by auto
qed

text \<open>
  The claim as stated, that no sleep occurs between the last product frame and the
  complete frame, fails on a run over one item.
\<close>

theorem C6_sleep_before_complete:
  "analyze_stream (Some ''tok'') one_item all_succeed ''now'' =
     [WriteHead 200,
      Frame (Status ''Starting analysis...'' ''init'' None),
      Frame (Status ''Fetching trending products...'' ''fetch'' None),
      Frame (Status ''Found 1 products. Starting analysis...'' ''analyze'' (Some 1)),
      Frame (Progress 1 1 ''A'' ''Analyzing A...''),
      Frame (ProductEvent \<lparr>item = item_A, analysis = JObject sample_analysis\<rparr>),
      Sleep 200,
      Frame (Complete \<lparr>totalProducts = 1, successCount = 1, errorCount = 0, timestamp = ''now'',
                       products = [\<lparr>item = item_A, analysis = JObject sample_analysis\<rparr>]\<rparr>),
      End]"
  by (simp add: analyze_stream_def one_item_def all_succeed_def race_timeout_def sendEvent_def
      Let_def loop_body_def item_A_def string_of_nat.simps digit_char_def)

section \<open>The bounded handler\<close>

lemma quick_loop_resolves:
  "\<forall>j < length ps. \<exists>t a. analyzer (i + j) (ps ! j) = Resolves t a \<Longrightarrow>
   \<exists>aps. quick_loop analyzer i ps acc = Returned (acc @ aps) \<and> length aps = length ps \<and>
         (\<forall>j < length ps. item (aps ! j) = ps ! j \<and>
            (\<exists>t. analyzer (i + j) (ps ! j) = Resolves t (analysis (aps ! j))))"
proof (induction ps arbitrary: i acc)
  case Nil
  show ?case by simp
next
  case (Cons p rest)
  from Cons.prems have "\<exists>t a. analyzer (i + 0) ((p # rest) ! 0) = Resolves t a"
    by blast
  then obtain t a where a: "analyzer i p = Resolves t a"
    by auto
  have "\<forall>j < length rest. \<exists>t a. analyzer (i + 1 + j) (rest ! j) = Resolves t a"
  proof (intro allI impI)
    fix j assume "j < length rest"
    then have "Suc j < length (p # rest)" by simp
    with Cons.prems have "\<exists>t a. analyzer (i + Suc j) ((p # rest) ! Suc j) = Resolves t a"
      by blast
    then show "\<exists>t a. analyzer (i + 1 + j) (rest ! j) = Resolves t a" by simp
  qed
  from Cons.IH [OF this, of "acc @ [\<lparr>item = p, analysis = a\<rparr>]"]
  obtain aps where aps: "quick_loop analyzer (i + 1) rest (acc @ [\<lparr>item = p, analysis = a\<rparr>]) =
        Returned ((acc @ [\<lparr>item = p, analysis = a\<rparr>]) @ aps)"
      "length aps = length rest"
      "\<forall>j < length rest. item (aps ! j) = rest ! j \<and>
            (\<exists>t. analyzer (i + 1 + j) (rest ! j) = Resolves t (analysis (aps ! j)))"
    by blast
  let ?aps = "\<lparr>item = p, analysis = a\<rparr> # aps"
  have 1: "quick_loop analyzer i (p # rest) acc = Returned (acc @ ?aps)"
    using a aps(1) by simp
  have 2: "length ?aps = length (p # rest)"
    using aps(2) by simp
  have 3: "\<forall>j < length (p # rest). item (?aps ! j) = (p # rest) ! j \<and>
            (\<exists>t. analyzer (i + j) ((p # rest) ! j) = Resolves t (analysis (?aps ! j)))"
  proof (intro allI impI)
    fix j assume j: "j < length (p # rest)"
    show "item (?aps ! j) = (p # rest) ! j \<and>
            (\<exists>t. analyzer (i + j) ((p # rest) ! j) = Resolves t (analysis (?aps ! j)))"
    proof (cases j)
      case 0
      with a show ?thesis by simp
    next
      case (Suc j')
      with j have "j' < length rest" by simp
      with aps(3) Suc show ?thesis by simp
    qed
  qed
  from 1 2 3 show ?case by blast
qed

lemma quick_loop_throws:
  "k < length ps \<Longrightarrow> \<forall>j < k. \<exists>t a. analyzer (i + j) (ps ! j) = Resolves t a \<Longrightarrow>
   analyzer (i + k) (ps ! k) = Rejects t e \<Longrightarrow> quick_loop analyzer i ps acc = Thrown e"
proof (induction ps arbitrary: i k acc)
  case Nil
  then show ?case by simp
next
  case (Cons p rest)
  show ?case
  proof (cases k)
    case 0
    with Cons.prems show ?thesis by simp
  next
    case (Suc k')
    with Cons.prems have "\<exists>t a. analyzer (i + 0) ((p # rest) ! 0) = Resolves t a"
      by blast
    then obtain t0 a where a: "analyzer i p = Resolves t0 a" by auto
    have k': "k' < length rest" using Cons.prems(1) Suc by simp
    have before: "\<forall>j < k'. \<exists>t a. analyzer (i + 1 + j) (rest ! j) = Resolves t a"
    proof (intro allI impI)
      fix j assume "j < k'"
      then have "Suc j < k" using Suc by simp
      with Cons.prems(2) have "\<exists>t a. analyzer (i + Suc j) ((p # rest) ! Suc j) = Resolves t a"
        by blast
      then show "\<exists>t a. analyzer (i + 1 + j) (rest ! j) = Resolves t a" by simp
    qed
    have at: "analyzer (i + 1 + k') (rest ! k') = Rejects t e"
      using Cons.prems(3) Suc by simp
    from Cons.IH [OF k' before at] a show ?thesis by simp
  qed
qed

text \<open>
  C7. The bounded handler answers 401 with an error body when there is no credential
  (\<open>null\<close> or the empty string). With a credential it asks for 3 items and answers 404
  when the fetch resolves with \<open>null\<close> or no item, 500 with the error's message when the
  fetch rejects, and 500 with the error's message when an analysis rejects after the
  earlier ones resolved. When the fetch resolves with items and every analysis resolves,
  it answers 200 with \<open>{success: true, data: {totalProducts, timestamp, products}}\<close>,
  where the products are the fetched items in order, each with the analysis its call
  resolved with. The times \<open>t\<close>, \<open>t'\<close> at which the calls settle are unconstrained: no
  call is raced against a timer. The handler's only output is this one response.
\<close>

theorem C7_bounded_endpoint:
  "((accessToken = None \<or> accessToken = Some []) \<longrightarrow>
      quick_analyze accessToken listing analyzer now =
        Some (Json 401 (ErrorBody ''Authentication required''))) \<and>
   (accessToken = Some token \<and> token \<noteq> [] \<longrightarrow>
      (listing token 3 = Resolves t None \<or> listing token 3 = Resolves t (Some []) \<longrightarrow>
         quick_analyze accessToken listing analyzer now =
           Some (Json 404 (ErrorBody ''No products found''))) \<and>
      (listing token 3 = Rejects t e \<longrightarrow>
         quick_analyze accessToken listing analyzer now =
           Some (Json 500 (ErrorBody (message e)))) \<and>
      (listing token 3 = Resolves t (Some ps) \<and> k < length ps \<and>
         (\<forall>j < k. \<exists>t'' a. analyzer j (ps ! j) = Resolves t'' a) \<and>
         analyzer k (ps ! k) = Rejects t' e \<longrightarrow>
         quick_analyze accessToken listing analyzer now =
           Some (Json 500 (ErrorBody (message e)))) \<and>
      (listing token 3 = Resolves t (Some ps) \<and> ps \<noteq> [] \<and>
         (\<forall>j < length ps. \<exists>t' a. analyzer j (ps ! j) = Resolves t' a) \<longrightarrow>
         (\<exists>aps. quick_analyze accessToken listing analyzer now =
                  Some (Json 200 (SuccessBody (length ps) now aps)) \<and>
                length aps = length ps \<and>
                (\<forall>j < length ps. item (aps ! j) = ps ! j \<and>
                   (\<exists>t'. analyzer j (ps ! j) = Resolves t' (analysis (aps ! j)))))))"
proof (intro conjI impI)
  assume "accessToken = None \<or> accessToken = Some []"
  then show "quick_analyze accessToken listing analyzer now =
        Some (Json 401 (ErrorBody ''Authentication required''))"
    by (auto simp add: quick_analyze_def)
next
  assume "accessToken = Some token \<and> token \<noteq> []"
    and "listing token 3 = Resolves t None \<or> listing token 3 = Resolves t (Some [])"
  then show "quick_analyze accessToken listing analyzer now =
           Some (Json 404 (ErrorBody ''No products found''))"
    by (auto simp add: quick_analyze_def)
next
  assume "accessToken = Some token \<and> token \<noteq> []" and "listing token 3 = Rejects t e"
  then show "quick_analyze accessToken listing analyzer now =
           Some (Json 500 (ErrorBody (message e)))"
    by (auto simp add: quick_analyze_def)
next
  assume tok: "accessToken = Some token \<and> token \<noteq> []"
    and h: "listing token 3 = Resolves t (Some ps) \<and> k < length ps \<and>
         (\<forall>j < k. \<exists>t'' a. analyzer j (ps ! j) = Resolves t'' a) \<and>
         analyzer k (ps ! k) = Rejects t' e"
  then have "quick_loop analyzer 0 ps [] = Thrown e"
    using quick_loop_throws [of k ps analyzer 0 t' e "[]"] by simp
  with tok h show "quick_analyze accessToken listing analyzer now =
           Some (Json 500 (ErrorBody (message e)))"
    by (auto simp add: quick_analyze_def)
next
  assume tok: "accessToken = Some token \<and> token \<noteq> []"
    and h: "listing token 3 = Resolves t (Some ps) \<and> ps \<noteq> [] \<and>
         (\<forall>j < length ps. \<exists>t' a. analyzer j (ps ! j) = Resolves t' a)"
  then obtain aps where aps: "quick_loop analyzer 0 ps [] = Returned ([] @ aps)"
      "length aps = length ps"
      "\<forall>j < length ps. item (aps ! j) = ps ! j \<and>
            (\<exists>t. analyzer (0 + j) (ps ! j) = Resolves t (analysis (aps ! j)))"
    using quick_loop_resolves [of ps analyzer 0 "[]"] by auto
  have "quick_analyze accessToken listing analyzer now =
                  Some (Json 200 (SuccessBody (length ps) now aps))"
    using tok h aps(1,2) by (auto simp add: quick_analyze_def)
  with aps(2,3) show "\<exists>aps. quick_analyze accessToken listing analyzer now =
                  Some (Json 200 (SuccessBody (length ps) now aps)) \<and>
                length aps = length ps \<and>
                (\<forall>j < length ps. item (aps ! j) = ps ! j \<and>
                   (\<exists>t'. analyzer j (ps ! j) = Resolves t' (analysis (aps ! j))))"
    by auto
qed

theorem C7_bounded_endpoint_witness:
  "(quick_analyze None slow_items slow_analyzer ''now'' =
     Some (Json 401 (ErrorBody ''Authentication required'')) \<and>
   slow_items ''tok'' 3 = Resolves 16000 (Some [item_A, item_B]) \<and>
   slow_analyzer 0 item_A = Resolves 9000 (JObject sample_analysis) \<and>
   slow_analyzer 1 item_B = Resolves 9000 (JObject sample_analysis) \<and>
   (\<exists>aps. quick_analyze (Some ''tok'') slow_items slow_analyzer ''now'' =
            Some (Json 200 (SuccessBody 2 ''now'' aps)) \<and>
          length aps = 2 \<and> item (aps ! 0) = item_A \<and> item (aps ! 1) = item_B)) \<and>
   (quick_analyze (Some ''tok'') no_items slow_analyzer ''now'' =
     Some (Json 404 (ErrorBody ''No products found'')) \<and>
   quick_analyze (Some ''tok'') failing_listing slow_analyzer ''now'' =
     Some (Json 500 (ErrorBody ''down'')) \<and>
   quick_analyze (Some ''tok'') two_items second_raises ''now'' =
     Some (Json 500 (ErrorBody ''boom'')))"
proof
  show "quick_analyze None slow_items slow_analyzer ''now'' =
     Some (Json 401 (ErrorBody ''Authentication required'')) \<and>
   slow_items ''tok'' 3 = Resolves 16000 (Some [item_A, item_B]) \<and>
   slow_analyzer 0 item_A = Resolves 9000 (JObject sample_analysis) \<and>
   slow_analyzer 1 item_B = Resolves 9000 (JObject sample_analysis) \<and>
   (\<exists>aps. quick_analyze (Some ''tok'') slow_items slow_analyzer ''now'' =
            Some (Json 200 (SuccessBody 2 ''now'' aps)) \<and>
          length aps = 2 \<and> item (aps ! 0) = item_A \<and> item (aps ! 1) = item_B)"
  proof -
    have l: "slow_items ''tok'' 3 = Resolves 16000 (Some [item_A, item_B])"
      by (simp add: slow_items_def)
    have a: "\<forall>j < length [item_A, item_B]. \<exists>t' a. slow_analyzer j ([item_A, item_B] ! j) = Resolves t' a"
      by (simp add: slow_analyzer_def)
    have tok: "Some ''tok'' = Some ''tok'' \<and> ''tok'' \<noteq> []"
      by simp
    note th = C7_bounded_endpoint [where accessToken = "Some ''tok''" and token = "''tok''"
        and listing = slow_items and analyzer = slow_analyzer and now = "''now''"
        and t = 16000 and ps = "[item_A, item_B]"]
    have prem: "slow_items ''tok'' 3 = Resolves 16000 (Some [item_A, item_B]) \<and> [item_A, item_B] \<noteq> [] \<and>
           (\<forall>j < length [item_A, item_B]. \<exists>t' a. slow_analyzer j ([item_A, item_B] ! j) = Resolves t' a)"
      using l a by simp
    from th [THEN conjunct2, THEN mp, OF tok, THEN conjunct2, THEN conjunct2, THEN conjunct2,
        THEN mp, OF prem]
    obtain aps where aps:
        "quick_analyze (Some ''tok'') slow_items slow_analyzer ''now'' =
                    Some (Json 200 (SuccessBody (length [item_A, item_B]) ''now'' aps))"
        "length aps = length [item_A, item_B]"
        "\<forall>j < length [item_A, item_B]. item (aps ! j) = [item_A, item_B] ! j"
      by auto
    from aps(3) have "item (aps ! 0) = item_A" "item (aps ! 1) = item_B"
      by simp_all
    with aps(1,2) have ok: "\<exists>aps. quick_analyze (Some ''tok'') slow_items slow_analyzer ''now'' =
              Some (Json 200 (SuccessBody 2 ''now'' aps)) \<and>
            length aps = 2 \<and> item (aps ! 0) = item_A \<and> item (aps ! 1) = item_B"
      by auto
    have un: "quick_analyze None slow_items slow_analyzer ''now'' =
       Some (Json 401 (ErrorBody ''Authentication required''))"
      using C7_bounded_endpoint [where accessToken = None and listing = slow_items
          and analyzer = slow_analyzer and now = "''now''"]
      by simp
    from un l ok show ?thesis
      by (simp add: slow_analyzer_def)
  qed
  show "quick_analyze (Some ''tok'') no_items slow_analyzer ''now'' =
     Some (Json 404 (ErrorBody ''No products found'')) \<and>
   quick_analyze (Some ''tok'') failing_listing slow_analyzer ''now'' =
     Some (Json 500 (ErrorBody ''down'')) \<and>
   quick_analyze (Some ''tok'') two_items second_raises ''now'' =
     Some (Json 500 (ErrorBody ''boom''))"
  proof -
    have tok: "Some ''tok'' = Some ''tok'' \<and> ''tok'' \<noteq> []"
      by simp
    have e: "no_items ''tok'' 3 = Resolves 5 None \<or> no_items ''tok'' 3 = Resolves 5 (Some [])"
      by (simp add: no_items_def)
    have f: "failing_listing ''tok'' 3 = Rejects 5 (new_Error ''down'')"
      by (simp add: failing_listing_def)
    have b: "two_items ''tok'' 3 = Resolves 120 (Some [item_A, item_B]) \<and> 1 < length [item_A, item_B] \<and>
           (\<forall>j < 1. \<exists>t'' a. second_raises j ([item_A, item_B] ! j) = Resolves t'' a) \<and>
           second_raises 1 ([item_A, item_B] ! 1) = Rejects 30 (new_Error ''boom'')"
      by (simp add: two_items_def second_raises_def)
    have m: "message (new_Error ''down'') = ''down''" "message (new_Error ''boom'') = ''boom''"
      by (simp_all add: new_Error_def)
    have 1: "quick_analyze (Some ''tok'') no_items slow_analyzer ''now'' =
       Some (Json 404 (ErrorBody ''No products found''))"
      using C7_bounded_endpoint [where accessToken = "Some ''tok''" and token = "''tok''"
        and listing = no_items and analyzer = slow_analyzer and now = "''now''" and t = 5,
        THEN conjunct2, THEN mp, OF tok, THEN conjunct1, THEN mp, OF e] .
    have 2: "quick_analyze (Some ''tok'') failing_listing slow_analyzer ''now'' =
       Some (Json 500 (ErrorBody ''down''))"
      using C7_bounded_endpoint [where accessToken = "Some ''tok''" and token = "''tok''"
        and listing = failing_listing and analyzer = slow_analyzer and now = "''now''" and t = 5
        and e = "new_Error ''down''",
        THEN conjunct2, THEN mp, OF tok, THEN conjunct2, THEN conjunct1, THEN mp, OF f]
      by (simp add: m)
    have 3: "quick_analyze (Some ''tok'') two_items second_raises ''now'' =
       Some (Json 500 (ErrorBody ''boom''))"
      using C7_bounded_endpoint [where accessToken = "Some ''tok''" and token = "''tok''"
        and listing = two_items and analyzer = second_raises and now = "''now''" and t = 120
        and ps = "[item_A, item_B]" and k = 1 and t' = 30 and e = "new_Error ''boom''",
        THEN conjunct2, THEN mp, OF tok, THEN conjunct2, THEN conjunct2, THEN conjunct1,
        THEN mp, OF b]
      by (simp add: m)
    from 1 2 3 show ?thesis by simp
  qed
qed


section \<open>The latest results\<close>

lemma writes_append: "writes (xs @ ys) = writes xs @ writes ys"
  by (induction xs rule: writes.induct) simp_all

lemma completes_append: "completes (xs @ ys) = completes xs @ completes ys"
  by (induction xs rule: completes.induct) simp_all

lemma writes_items:
  "writes (concat (map (\<lambda>(k, p). item_actions analyzer n k p) (enumerate i ps))) = []"
  by (induction ps arbitrary: i) (simp_all add: item_actions_def writes_append)

lemma completes_items:
  "completes (concat (map (\<lambda>(k, p). item_frames analyzer n k p) (enumerate i ps))) = []"
  by (induction ps arbitrary: i) (simp_all add: item_frames_def completes_append)

lemma fetch_abort_None:
  "fetch_abort p = None \<Longrightarrow> \<exists>t ps. p = Resolves t (Some ps) \<and> t < 15000 \<and> ps \<noteq> []"
  by (auto simp add: fetch_abort_def split: promise.splits option.splits if_splits)

lemma latest_unauthenticated:
  assumes "accessToken = None \<or> accessToken = Some []"
  shows "analyze_stream_latest accessToken listing analyzer now latest =
           (analyze_stream accessToken listing analyzer now, latest) \<and>
         writes (analyze_stream accessToken listing analyzer now) = [] \<and>
         completes (frames (analyze_stream accessToken listing analyzer now)) = []"
  using assms
  by (auto simp add: analyze_stream_latest_def analyze_stream_def sendEvent_def Let_def)

lemma latest_abort_same:
  assumes "token \<noteq> []" and "fetch_abort (listing token 10) = Some m"
  shows "analyze_stream_latest (Some token) listing analyzer now latest =
           (analyze_stream (Some token) listing analyzer now, latest)"
proof (cases "listing token 10")
  case (Resolves t r)
  show ?thesis
  proof (cases "t < 15000")
    case True
    with Resolves assms(2) have "r = None \<or> r = Some []"
      by (cases r) (simp_all add: fetch_abort_def split: if_splits)
    with Resolves True assms(1) show ?thesis
      by (auto simp add: analyze_stream_latest_def analyze_stream_def race_timeout_def Let_def)
  next
    case False
    with Resolves assms(1) show ?thesis
      by (simp add: analyze_stream_latest_def analyze_stream_def race_timeout_def Let_def)
  qed
next
  case (Rejects t e)
  with assms(1) show ?thesis
    by (simp add: analyze_stream_latest_def analyze_stream_def race_timeout_def Let_def)
next
  case Pending
  with assms(1) show ?thesis
    by (simp add: analyze_stream_latest_def analyze_stream_def race_timeout_def Let_def)
qed

lemma latest_abort:
  assumes "token \<noteq> []" and "fetch_abort (listing token 10) = Some m"
  shows "analyze_stream_latest (Some token) listing analyzer now latest =
           (analyze_stream (Some token) listing analyzer now, latest) \<and>
         writes (analyze_stream (Some token) listing analyzer now) = [] \<and>
         completes (frames (analyze_stream (Some token) listing analyzer now)) = []"
  using latest_abort_same [where token = token and listing = listing and m = m, OF assms]
    abort_run [where token = token and listing = listing and m = m
      and analyzer = analyzer and now = now, OF assms]
  by auto

lemma latest_complete:
  assumes "token \<noteq> []" and "listing token 10 = Resolves t (Some ps)" and "t < 15000"
    and "ps \<noteq> []"
  shows "analyze_stream_latest (Some token) listing analyzer now latest =
           (preamble (length ps)
            @ concat (map (\<lambda>(k, p). item_actions analyzer (length ps) k p) (enumerate 0 ps))
            @ [SetLatest (summary_of analyzer now ps),
               Frame (Complete (summary_of analyzer now ps)), End],
            Some (summary_of analyzer now ps))"
  using assms
  by (simp add: analyze_stream_latest_def race_timeout_def Let_def sendEvent_def loop_out
      loop_products loop_success loop_error summary_of_def preamble_def)

lemma completes_complete:
  assumes "token \<noteq> []" and "listing token 10 = Resolves t (Some ps)" and "t < 15000"
    and "ps \<noteq> []"
  shows "completes (frames (analyze_stream (Some token) listing analyzer now)) =
           [summary_of analyzer now ps]"
  using frames_complete [where token = token and listing = listing and t = t and ps = ps, OF assms]
  by (simp add: completes_append completes_items)

lemma run_cases:
  obtains (unauthenticated) "accessToken = None \<or> accessToken = Some []"
  | (abort) token m where "accessToken = Some token" "token \<noteq> []"
      "fetch_abort (listing token 10) = Some m"
  | (complete) token t ps where "accessToken = Some token" "token \<noteq> []"
      "listing token 10 = Resolves t (Some ps)" "t < 15000" "ps \<noteq> []"
proof (cases accessToken)
  case None
  then show ?thesis using unauthenticated by simp
next
  case (Some token)
  show ?thesis
  proof (cases "token = []")
    case True
    with Some show ?thesis using unauthenticated by simp
  next
    case False
    show ?thesis
    proof (cases "fetch_abort (listing token 10)")
      case None
      then obtain t ps where "listing token 10 = Resolves t (Some ps)" "t < 15000" "ps \<noteq> []"
        using fetch_abort_None by blast
      with Some False show ?thesis using complete by blast
    next
      case (Some m)
      with \<open>accessToken = Some token\<close> False show ?thesis using abort by blast
    qed
  qed
qed

lemma latest_slot:
  "snd (analyze_stream_latest accessToken listing analyzer now latest) =
     (case completed (AnalyzeStream accessToken listing analyzer now) of
        None \<Rightarrow> latest
      | Some r \<Rightarrow> Some r)"
proof (cases rule: run_cases [where accessToken = accessToken and listing = listing])
  case unauthenticated
  then show ?thesis
    using latest_unauthenticated [where accessToken = accessToken and listing = listing
        and analyzer = analyzer and now = now and latest = latest]
    by simp
next
  case (abort token m)
  then show ?thesis
    using latest_abort [where token = token and listing = listing and m = m
        and analyzer = analyzer and now = now and latest = latest]
    by simp
next
  case (complete token t ps)
  then show ?thesis
    using latest_complete [where token = token and listing = listing and t = t and ps = ps
        and analyzer = analyzer and now = now and latest = latest]
      completes_complete [where token = token and listing = listing and t = t and ps = ps
        and analyzer = analyzer and now = now]
    by simp
qed

lemma latest_writes:
  "writes (fst (analyze_stream_latest accessToken listing analyzer now latest)) =
     completes (frames (fst (analyze_stream_latest accessToken listing analyzer now latest))) \<and>
   completes (frames (fst (analyze_stream_latest accessToken listing analyzer now latest))) =
     completes (frames (analyze_stream accessToken listing analyzer now)) \<and>
   length (writes (fst (analyze_stream_latest accessToken listing analyzer now latest))) \<le> 1"
proof (cases rule: run_cases [where accessToken = accessToken and listing = listing])
  case unauthenticated
  then show ?thesis
    using latest_unauthenticated [where accessToken = accessToken and listing = listing
        and analyzer = analyzer and now = now and latest = latest]
    by simp
next
  case (abort token m)
  then show ?thesis
    using latest_abort [where token = token and listing = listing and m = m
        and analyzer = analyzer and now = now and latest = latest]
    by simp
next
  case (complete token t ps)
  then show ?thesis
    using latest_complete [where token = token and listing = listing and t = t and ps = ps
        and analyzer = analyzer and now = now and latest = latest]
      completes_complete [where token = token and listing = listing and t = t and ps = ps
        and analyzer = analyzer and now = now]
    by (simp add: writes_append writes_items completes_append completes_items frames_append
        frames_items preamble_def)
qed

lemma serve_slot: "snd (serve rqs latest) = last_completed rqs latest"
proof (induction rqs arbitrary: latest)
  case Nil
  show ?case by simp
next
  case (Cons rq rqs)
  show ?case
  proof (cases rq)
    case (AnalyzeStream accessToken listing analyzer now)
    then show ?thesis
      using Cons.IH latest_slot [of accessToken listing analyzer now latest]
      by (simp add: split_beta del: completed.simps)
  next
    case LatestResults
    then show ?thesis using Cons.IH by (simp add: split_beta)
  qed
qed

lemma serve_append:
  "serve (rqs @ rqs') latest =
     (fst (serve rqs latest) @ fst (serve rqs' (snd (serve rqs latest))),
      snd (serve rqs' (snd (serve rqs latest))))"
  by (induction rqs arbitrary: latest) (simp_all add: split_beta)

text \<open>
  C8. \<open>/api/latest-results\<close> answers 404 while the variable is \<open>null\<close> and otherwise
  answers with the stored summary. A streaming run assigns the variable at most once, and
  exactly the summaries of its complete frames: a run that ends for want of a credential
  or in the fetch phase assigns nothing and leaves the variable as it was; a run that
  reaches completion assigns its summary once, immediately before the complete frame that
  carries the same summary, and a read then returns that summary. Over any sequence of
  requests the variable holds the summary of the last run that completed (the starting
  value when none did), so a read at the end of a sequence started with \<open>null\<close> answers
  404 when no run completed and with the latest completed summary otherwise.
\<close>

theorem C8_latest_results_slot:
  "latest_results None = Json 404 (ErrorBody ''No analysis results available'') \<and>
   latest_results (Some r0) = Json 200 (SummaryBody r0) \<and>
   handle LatestResults latest = (Replied (latest_results latest), latest) \<and>
   writes (fst (analyze_stream_latest accessToken listing analyzer now latest)) =
     completes (frames (fst (analyze_stream_latest accessToken listing analyzer now latest))) \<and>
   length (writes (fst (analyze_stream_latest accessToken listing analyzer now latest))) \<le> 1 \<and>
   snd (analyze_stream_latest accessToken listing analyzer now latest) =
     (case writes (fst (analyze_stream_latest accessToken listing analyzer now latest)) of
        [] \<Rightarrow> latest
      | r # rs \<Rightarrow> Some r) \<and>
   (accessToken = None \<or> accessToken = Some [] \<longrightarrow>
      writes (fst (analyze_stream_latest accessToken listing analyzer now latest)) = [] \<and>
      snd (analyze_stream_latest accessToken listing analyzer now latest) = latest) \<and>
   (accessToken = Some token \<and> token \<noteq> [] \<and> fetch_abort (listing token 10) = Some m \<longrightarrow>
      writes (fst (analyze_stream_latest accessToken listing analyzer now latest)) = [] \<and>
      snd (analyze_stream_latest accessToken listing analyzer now latest) = latest) \<and>
   (accessToken = Some token \<and> token \<noteq> [] \<and> listing token 10 = Resolves t (Some ps) \<and>
    t < 15000 \<and> ps \<noteq> [] \<longrightarrow>
      (\<exists>r pre. fst (analyze_stream_latest accessToken listing analyzer now latest) =
                 pre @ [SetLatest r, Frame (Complete r), End] \<and>
               writes (fst (analyze_stream_latest accessToken listing analyzer now latest)) = [r] \<and>
               snd (analyze_stream_latest accessToken listing analyzer now latest) = Some r \<and>
               latest_results (snd (analyze_stream_latest accessToken listing analyzer now latest)) =
                 Json 200 (SummaryBody r))) \<and>
   snd (serve rqs latest) = last_completed rqs latest \<and>
   fst (serve (rqs @ [LatestResults]) None) =
     fst (serve rqs None) @
       [Replied (case last_completed rqs None of
                   None \<Rightarrow> Json 404 (ErrorBody ''No analysis results available'')
                 | Some r \<Rightarrow> Json 200 (SummaryBody r))]"
proof (intro conjI impI)
  let ?run = "analyze_stream_latest accessToken listing analyzer now latest"
  show "latest_results None = Json 404 (ErrorBody ''No analysis results available'')"
    and "latest_results (Some r0) = Json 200 (SummaryBody r0)"
    and "handle LatestResults latest = (Replied (latest_results latest), latest)"
    by (simp_all add: latest_results_def)
  show w: "writes (fst ?run) = completes (frames (fst ?run))"
    and "length (writes (fst ?run)) \<le> 1"
    using latest_writes [of accessToken listing analyzer now latest] by blast+
  show "snd ?run = (case writes (fst ?run) of [] \<Rightarrow> latest | r # rs \<Rightarrow> Some r)"
    using latest_slot [of accessToken listing analyzer now latest]
      latest_writes [of accessToken listing analyzer now latest]
    by (simp split: list.splits)
  show "snd (serve rqs latest) = last_completed rqs latest"
    by (rule serve_slot)
  show "fst (serve (rqs @ [LatestResults]) None) =
     fst (serve rqs None) @
       [Replied (case last_completed rqs None of
                   None \<Rightarrow> Json 404 (ErrorBody ''No analysis results available'')
                 | Some r \<Rightarrow> Json 200 (SummaryBody r))]"
    by (simp add: serve_append serve_slot latest_results_def)
next
  let ?run = "analyze_stream_latest accessToken listing analyzer now latest"
  assume "accessToken = None \<or> accessToken = Some []"
  then have "?run = (analyze_stream accessToken listing analyzer now, latest) \<and>
         writes (analyze_stream accessToken listing analyzer now) = []"
    using latest_unauthenticated [where accessToken = accessToken and listing = listing
        and analyzer = analyzer and now = now and latest = latest]
    by simp
  then show "writes (fst ?run) = []" and "snd ?run = latest"
    by simp_all
next
  let ?run = "analyze_stream_latest accessToken listing analyzer now latest"
  assume "accessToken = Some token \<and> token \<noteq> [] \<and> fetch_abort (listing token 10) = Some m"
  then have "?run = (analyze_stream accessToken listing analyzer now, latest) \<and>
         writes (analyze_stream accessToken listing analyzer now) = []"
    using latest_abort [where token = token and listing = listing and m = m
        and analyzer = analyzer and now = now and latest = latest]
    by simp
  then show "writes (fst ?run) = []" and "snd ?run = latest"
    by simp_all
next
  let ?run = "analyze_stream_latest accessToken listing analyzer now latest"
  let ?r = "summary_of analyzer now ps"
  assume "accessToken = Some token \<and> token \<noteq> [] \<and> listing token 10 = Resolves t (Some ps) \<and>
    t < 15000 \<and> ps \<noteq> []"
  then have run: "?run = (preamble (length ps)
            @ concat (map (\<lambda>(k, p). item_actions analyzer (length ps) k p) (enumerate 0 ps))
            @ [SetLatest ?r, Frame (Complete ?r), End], Some ?r)"
    using latest_complete [where token = token and listing = listing and t = t and ps = ps
        and analyzer = analyzer and now = now and latest = latest]
    by simp
  have 1: "fst ?run = (preamble (length ps)
            @ concat (map (\<lambda>(k, p). item_actions analyzer (length ps) k p) (enumerate 0 ps)))
            @ [SetLatest ?r, Frame (Complete ?r), End]"
    by (simp add: run)
  have 2: "writes (fst ?run) = [?r]"
    by (simp add: run writes_append writes_items preamble_def)
  have 3: "snd ?run = Some ?r"
    by (simp add: run)
  have 4: "latest_results (snd ?run) = Json 200 (SummaryBody ?r)"
    by (simp add: run latest_results_def)
  from 1 2 3 4 show "\<exists>r pre. fst ?run = pre @ [SetLatest r, Frame (Complete r), End] \<and>
               writes (fst ?run) = [r] \<and> snd ?run = Some r \<and>
               latest_results (snd ?run) = Json 200 (SummaryBody r)"
    by blast
qed

theorem C8_latest_results_slot_witness:
  "''tok'' \<noteq> [] \<and> two_items ''tok'' 10 = Resolves 120 (Some [item_A, item_B]) \<and>
   (120 :: nat) < 15000 \<and> [item_A, item_B] \<noteq> [] \<and>
   (\<exists>r. writes (fst (analyze_stream_latest (Some ''tok'') two_items all_succeed ''now'' None)) = [r] \<and>
        latest_results (snd (analyze_stream_latest (Some ''tok'') two_items all_succeed ''now'' None))
          = Json 200 (SummaryBody r)) \<and>
   fetch_abort (late_items ''tok'' 10) = Some ''Fetch timeout'' \<and>
   snd (analyze_stream_latest (Some ''tok'') late_items all_succeed ''now'' (Some old_summary))
     = Some old_summary \<and>
   snd (analyze_stream_latest None two_items all_succeed ''now'' (Some old_summary))
     = Some old_summary \<and>
   fst (serve [LatestResults] None) =
     [Replied (Json 404 (ErrorBody ''No analysis results available''))]"
proof -
  have l: "two_items ''tok'' 10 = Resolves 120 (Some [item_A, item_B])"
    by (simp add: two_items_def)
  have f: "fetch_abort (late_items ''tok'' 10) = Some ''Fetch timeout''"
    by (simp add: fetch_abort_def late_items_def)
  have c: "Some ''tok'' = Some ''tok'' \<and> ''tok'' \<noteq> [] \<and>
      two_items ''tok'' 10 = Resolves 120 (Some [item_A, item_B]) \<and>
      (120 :: nat) < 15000 \<and> [item_A, item_B] \<noteq> []"
    using l by simp
  have a: "Some ''tok'' = Some ''tok'' \<and> ''tok'' \<noteq> [] \<and>
      fetch_abort (late_items ''tok'' 10) = Some ''Fetch timeout''"
    using f by simp
  note run = C8_latest_results_slot [where accessToken = "Some ''tok''" and token = "''tok''"
      and listing = two_items and analyzer = all_succeed and now = "''now''" and latest = None
      and t = 120 and ps = "[item_A, item_B]",
      THEN conjunct2, THEN conjunct2, THEN conjunct2, THEN conjunct2, THEN conjunct2,
      THEN conjunct2, THEN conjunct2, THEN conjunct2, THEN conjunct1, THEN mp, OF c]
  note late = C8_latest_results_slot [where accessToken = "Some ''tok''" and token = "''tok''"
      and listing = late_items and analyzer = all_succeed and now = "''now''"
      and latest = "Some old_summary" and m = "''Fetch timeout''",
      THEN conjunct2, THEN conjunct2, THEN conjunct2, THEN conjunct2, THEN conjunct2,
      THEN conjunct2, THEN conjunct2, THEN conjunct1, THEN mp, OF a]
  note none = C8_latest_results_slot [where accessToken = None
      and listing = two_items and analyzer = all_succeed and now = "''now''"
      and latest = "Some old_summary",
      THEN conjunct2, THEN conjunct2, THEN conjunct2, THEN conjunct2, THEN conjunct2,
      THEN conjunct2, THEN conjunct1, THEN mp]
  note first = C8_latest_results_slot [where rqs = "[]",
      THEN conjunct2, THEN conjunct2, THEN conjunct2, THEN conjunct2, THEN conjunct2,
      THEN conjunct2, THEN conjunct2, THEN conjunct2, THEN conjunct2, THEN conjunct2]
  have 1: "\<exists>r. writes (fst (analyze_stream_latest (Some ''tok'') two_items all_succeed ''now'' None)) = [r] \<and>
        latest_results (snd (analyze_stream_latest (Some ''tok'') two_items all_succeed ''now'' None))
          = Json 200 (SummaryBody r)"
    using run by blast
  have 2: "snd (analyze_stream_latest (Some ''tok'') late_items all_succeed ''now'' (Some old_summary))
     = Some old_summary"
    using late by simp
  have 3: "snd (analyze_stream_latest None two_items all_succeed ''now'' (Some old_summary))
     = Some old_summary"
    using none by simp
  have 4: "fst (serve [LatestResults] None) =
     [Replied (Json 404 (ErrorBody ''No analysis results available''))]"
    using first by simp
  from l f 1 2 3 4 show ?thesis by simp
qed

section \<open>The Listing Source never rejects\<close>

declare makeGraphQLRequest.simps [simp del]

lemma request_try_settles:
  "graphql_post w tok f r \<noteq> Pending \<Longrightarrow> \<exists>t x. request_try w tok f r = Some (t, x)"
  by (cases "graphql_post w tok f r") (simp_all add: request_try_def split: option.splits)

lemma makeGraphQLRequest_settles:
  "\<forall>r'. graphql_post w tok f r' \<noteq> Pending \<Longrightarrow> makeGraphQLRequest w tok f r \<noteq> Pending"
proof (induction w tok f r rule: makeGraphQLRequest.induct)
  case (1 w accessToken first retryCount)
  from "1.prems" obtain t x where tb: "request_try w accessToken first retryCount = Some (t, x)"
    using request_try_settles by blast
  show ?case
  proof (cases x)
    case (Inr body)
    with tb show ?thesis by (subst makeGraphQLRequest.simps) simp
  next
    case (Inl e)
    show ?thesis
    proof (cases "retryCount < ph_maxRetries \<and> ph_shouldRetry e")
      case True
      with "1.IH" [OF tb refl Inl] "1.prems"
      have "makeGraphQLRequest w accessToken first (retryCount + 1) \<noteq> Pending"
        by blast
      then show ?thesis
        using tb Inl True
        by (subst makeGraphQLRequest.simps)
          (cases "makeGraphQLRequest w accessToken first (retryCount + 1)"; simp)
    next
      case False
      with tb Inl show ?thesis by (subst makeGraphQLRequest.simps) auto
    qed
  qed
qed

lemma getTrendingProducts_never_rejects: "getTrendingProducts w tok limit \<noteq> Rejects t e"
  by (auto simp add: getTrendingProducts_def getTrendingProductsREST_def
      split: option.splits promise.splits prod.splits)

lemma getTrendingProducts_fallback:
  assumes "graphql_try w tok limit = Some (t, None)"
  shows "getTrendingProducts w tok limit =
           (case getTrendingProductsREST w tok limit of
              Pending \<Rightarrow> Pending
            | Resolves t' ps \<Rightarrow> Resolves (t + t') ps
            | Rejects t' restError \<Rightarrow> Resolves (t + t') (getMockProducts w limit))"
  using assms
  by (cases "getTrendingProductsREST w tok limit") (simp_all add: getTrendingProducts_def)

lemma graphql_try_rejected:
  "makeGraphQLRequest w tok (min (limit * 2) 30) 0 = Rejects t e \<Longrightarrow>
   graphql_try w tok limit = Some (t, None)"
  by (simp add: graphql_try_def)

lemma graphql_try_invalid:
  "makeGraphQLRequest w tok (min (limit * 2) 30) 0 = Resolves t body \<Longrightarrow> gql_posts body = None \<Longrightarrow>
   graphql_try w tok limit = Some (t, None)"
  by (simp add: graphql_try_def)

lemma getTrendingProducts_settles:
  assumes "\<forall>f r. graphql_post w tok f r \<noteq> Pending" and "\<forall>n. rest_get w tok n \<noteq> Pending"
  shows "\<exists>t ps. getTrendingProducts w tok limit = Resolves t ps"
proof -
  have g: "makeGraphQLRequest w tok (min (limit * 2) 30) 0 \<noteq> Pending"
    using assms(1) makeGraphQLRequest_settles by blast
  have r: "getTrendingProductsREST w tok limit \<noteq> Pending"
    using assms(2) [rule_format, of "min limit 50"]
    by (auto simp add: getTrendingProductsREST_def split: promise.splits option.splits)
  from g r show ?thesis
    by (cases "makeGraphQLRequest w tok (min (limit * 2) 30) 0";
        cases "getTrendingProductsREST w tok limit")
      (auto simp add: getTrendingProducts_def graphql_try_def split: option.splits)
qed

lemma length_getMockProducts: "length (getMockProducts w limit) = min limit 20"
  by (simp add: getMockProducts_def mockProducts_def) arith

lemma no_error_in_items:
  "ErrorEvent m \<notin> set (concat (map (\<lambda>(k, p). item_frames analyzer n k p) (enumerate i ps)))"
  by (induction ps arbitrary: i) (simp_all add: item_frames_def)

lemma listing_abort_message:
  assumes "token \<noteq> []"
    and "ErrorEvent m \<in> set (frames (analyze_stream (Some token) (listing_of w) analyzer now))"
  shows "(m = ''Fetch timeout'' \<and> \<not> settles_before (getTrendingProducts w token 10) 15000) \<or>
         (m = ''No trending products found'' \<and>
          (\<exists>t. getTrendingProducts w token 10 = Resolves t [] \<and> t < 15000))"
proof (cases "fetch_abort (listing_of w token 10)")
  case None
  then obtain t ps where "listing_of w token 10 = Resolves t (Some ps)" "t < 15000" "ps \<noteq> []"
    by (auto simp add: fetch_abort_def split: promise.splits option.splits if_splits)
  then have "frames (analyze_stream (Some token) (listing_of w) analyzer now) =
           [Status ''Starting analysis...'' ''init'' None,
            Status ''Fetching trending products...'' ''fetch'' None,
            Status (''Found '' @ string_of_nat (length ps) @ '' products. Starting analysis...'')
              ''analyze'' (Some (length ps))]
           @ concat (map (\<lambda>(k, p). item_frames analyzer (length ps) k p) (enumerate 0 ps))
           @ [Complete (summary_of analyzer now ps)]"
    using frames_complete [where token = token and listing = "listing_of w" and t = t and ps = ps]
      assms(1) by simp
  then show ?thesis
    using assms(2) no_error_in_items [of m analyzer "length ps" 0 ps] by simp
next
  case (Some m')
  then have "frames (analyze_stream (Some token) (listing_of w) analyzer now) =
           [Status ''Starting analysis...'' ''init'' None,
            Status ''Fetching trending products...'' ''fetch'' None,
            ErrorEvent m']"
    using abort_run [where token = token and listing = "listing_of w" and m = m'
      and analyzer = analyzer and now = now] assms(1)
    by auto
  with assms(2) have m: "m = m'" by simp
  from Some getTrendingProducts_never_rejects [of w token 10]
  show ?thesis
    unfolding m
    by (cases "getTrendingProducts w token 10")
      (auto simp add: fetch_abort_def listing_of_def settles_before_def split: if_splits)
qed

text \<open>
  C10. \<open>getTrendingProducts\<close> never rejects, for any credential and limit, and it resolves
  when the HTTP requests it makes settle. When the GraphQL request fails (it rejects, or
  its body has no posts) the result is that of the REST call, made then; when the REST
  call rejects too, the result is the mock data, which has \<open>min limit 20\<close> products and so
  is not empty for a limit of at least 1. Hence an error frame in a streaming run with a
  credential, wired to this Listing Source, is either the timeout (the fetch had not
  settled before 15000 ms) or the empty fetch (it resolved in time with no item).
\<close>

theorem C10_listing_never_rejects:
  "getTrendingProducts w tok limit \<noteq> Rejects t e \<and>
   ((\<forall>f r. graphql_post w tok f r \<noteq> Pending) \<and> (\<forall>n. rest_get w tok n \<noteq> Pending) \<longrightarrow>
      (\<exists>t' ps. getTrendingProducts w tok limit = Resolves t' ps)) \<and>
   (makeGraphQLRequest w tok (min (limit * 2) 30) 0 = Rejects t0 e0 \<or>
    (\<exists>body. makeGraphQLRequest w tok (min (limit * 2) 30) 0 = Resolves t0 body \<and>
            gql_posts body = None) \<longrightarrow>
      getTrendingProducts w tok limit =
        (case getTrendingProductsREST w tok limit of
           Pending \<Rightarrow> Pending
         | Resolves t' ps \<Rightarrow> Resolves (t0 + t') ps
         | Rejects t' restError \<Rightarrow> Resolves (t0 + t') (getMockProducts w limit))) \<and>
   length (getMockProducts w limit) = min limit 20 \<and>
   (1 \<le> limit \<longrightarrow> getMockProducts w limit \<noteq> []) \<and>
   (token \<noteq> [] \<and>
    ErrorEvent m \<in> set (frames (analyze_stream (Some token) (listing_of w) analyzer now)) \<longrightarrow>
      (m = ''Fetch timeout'' \<and> \<not> settles_before (getTrendingProducts w token 10) 15000) \<or>
      (m = ''No trending products found'' \<and>
       (\<exists>t'. getTrendingProducts w token 10 = Resolves t' [] \<and> t' < 15000)))"
proof (intro conjI impI)
  show "getTrendingProducts w tok limit \<noteq> Rejects t e"
    by (rule getTrendingProducts_never_rejects)
  show "length (getMockProducts w limit) = min limit 20"
    by (rule length_getMockProducts)
next
  assume "(\<forall>f r. graphql_post w tok f r \<noteq> Pending) \<and> (\<forall>n. rest_get w tok n \<noteq> Pending)"
  then show "\<exists>t' ps. getTrendingProducts w tok limit = Resolves t' ps"
    using getTrendingProducts_settles [of w tok limit] by blast
next
  assume "makeGraphQLRequest w tok (min (limit * 2) 30) 0 = Rejects t0 e0 \<or>
    (\<exists>body. makeGraphQLRequest w tok (min (limit * 2) 30) 0 = Resolves t0 body \<and>
            gql_posts body = None)"
  then have "graphql_try w tok limit = Some (t0, None)"
    using graphql_try_rejected graphql_try_invalid by blast
  then show "getTrendingProducts w tok limit =
        (case getTrendingProductsREST w tok limit of
           Pending \<Rightarrow> Pending
         | Resolves t' ps \<Rightarrow> Resolves (t0 + t') ps
         | Rejects t' restError \<Rightarrow> Resolves (t0 + t') (getMockProducts w limit))"
    by (rule getTrendingProducts_fallback)
next
  assume "1 \<le> limit"
  then have "0 < length (getMockProducts w limit)"
    by (simp add: length_getMockProducts)
  then show "getMockProducts w limit \<noteq> []"
    by simp
next
  assume "token \<noteq> [] \<and>
    ErrorEvent m \<in> set (frames (analyze_stream (Some token) (listing_of w) analyzer now))"
  then show "(m = ''Fetch timeout'' \<and> \<not> settles_before (getTrendingProducts w token 10) 15000) \<or>
      (m = ''No trending products found'' \<and>
       (\<exists>t'. getTrendingProducts w token 10 = Resolves t' [] \<and> t' < 15000))"
    using listing_abort_message [of token m w analyzer now] by blast
qed

theorem C10_listing_never_rejects_witness:
  "(makeGraphQLRequest unreachable_world ''tok'' (min (10 * 2) 30) 0 =
     Rejects 40 (new_Error ''Network Error'') \<and>
   getTrendingProductsREST unreachable_world ''tok'' 10 = Rejects 60 (new_Error ''Network Error'') \<and>
   getTrendingProducts unreachable_world ''tok'' 10 =
     Resolves 100 (getMockProducts unreachable_world 10) \<and>
   (1 :: nat) \<le> 10 \<and>
   getMockProducts unreachable_world 10 \<noteq> [] \<and>
   length (getMockProducts unreachable_world 10) = 10) \<and>
   ((\<forall>f r. graphql_post unreachable_world ''tok'' f r \<noteq> Pending) \<and>
   (\<forall>n. rest_get unreachable_world ''tok'' n \<noteq> Pending) \<and>
   ''tok'' \<noteq> [] \<and>
   ErrorEvent ''No trending products found''
     \<in> set (frames (analyze_stream (Some ''tok'') (listing_of empty_world) all_succeed ''now'')) \<and>
   (\<exists>t'. getTrendingProducts empty_world ''tok'' 10 = Resolves t' [] \<and> t' < 15000))"
proof
  show "makeGraphQLRequest unreachable_world ''tok'' (min (10 * 2) 30) 0 =
     Rejects 40 (new_Error ''Network Error'') \<and>
   getTrendingProductsREST unreachable_world ''tok'' 10 = Rejects 60 (new_Error ''Network Error'') \<and>
   getTrendingProducts unreachable_world ''tok'' 10 =
     Resolves 100 (getMockProducts unreachable_world 10) \<and>
   (1 :: nat) \<le> 10 \<and>
   getMockProducts unreachable_world 10 \<noteq> [] \<and>
   length (getMockProducts unreachable_world 10) = 10"
  proof -
    have g: "makeGraphQLRequest unreachable_world ''tok'' (min (10 * 2) 30) 0 =
       Rejects 40 (new_Error ''Network Error'')"
      by (subst makeGraphQLRequest.simps)
        (simp add: request_try_def unreachable_world_def ph_shouldRetry_def new_Error_def)
    have r: "getTrendingProductsREST unreachable_world ''tok'' 10 =
       Rejects 60 (new_Error ''Network Error'')"
      by (simp add: getTrendingProductsREST_def unreachable_world_def)
    note th = C10_listing_never_rejects [where w = unreachable_world and tok = "''tok''"
        and limit = 10 and ?t0.0 = 40 and ?e0.0 = "new_Error ''Network Error''"]
    have one: "(1 :: nat) \<le> 10" by simp
    from th g have "getTrendingProducts unreachable_world ''tok'' 10 =
          (case getTrendingProductsREST unreachable_world ''tok'' 10 of
             Pending \<Rightarrow> Pending
           | Resolves t' ps \<Rightarrow> Resolves (40 + t') ps
           | Rejects t' restError \<Rightarrow> Resolves (40 + t') (getMockProducts unreachable_world 10))"
      by blast
    then have 1: "getTrendingProducts unreachable_world ''tok'' 10 =
       Resolves 100 (getMockProducts unreachable_world 10)"
      by (simp add: r)
    from th one have 2: "getMockProducts unreachable_world 10 \<noteq> []"
      by blast
    from th have 3: "length (getMockProducts unreachable_world 10) = 10"
      by simp
    from g r 1 2 3 show ?thesis by simp
  qed
  show "(\<forall>f r. graphql_post unreachable_world ''tok'' f r \<noteq> Pending) \<and>
   (\<forall>n. rest_get unreachable_world ''tok'' n \<noteq> Pending) \<and>
   ''tok'' \<noteq> [] \<and>
   ErrorEvent ''No trending products found''
     \<in> set (frames (analyze_stream (Some ''tok'') (listing_of empty_world) all_succeed ''now'')) \<and>
   (\<exists>t'. getTrendingProducts empty_world ''tok'' 10 = Resolves t' [] \<and> t' < 15000)"
  proof -
    have g: "makeGraphQLRequest empty_world ''tok'' (min (10 * 2) 30) 0 =
       Resolves 40 \<lparr>gql_errors = None, gql_posts = Some []\<rparr>"
      by (subst makeGraphQLRequest.simps) (simp add: request_try_def empty_world_def)
    have l: "listing_of empty_world ''tok'' 10 = Resolves 40 (Some [])"
      using g by (simp add: listing_of_def getTrendingProducts_def graphql_try_def select_products_def)
    have ev: "ErrorEvent ''No trending products found''
       \<in> set (frames (analyze_stream (Some ''tok'') (listing_of empty_world) all_succeed ''now''))"
      by (simp add: analyze_stream_def l race_timeout_def sendEvent_def Let_def)
    have h: "''tok'' \<noteq> [] \<and> ErrorEvent ''No trending products found''
       \<in> set (frames (analyze_stream (Some ''tok'') (listing_of empty_world) all_succeed ''now''))"
      using ev by simp
    note th = C10_listing_never_rejects [where w = empty_world and token = "''tok''"
        and m = "''No trending products found''" and analyzer = all_succeed and now = "''now''",
        THEN conjunct2, THEN conjunct2, THEN conjunct2, THEN conjunct2, THEN conjunct2, THEN mp, OF h]
    then have "\<exists>t'. getTrendingProducts empty_world ''tok'' 10 = Resolves t' [] \<and> t' < 15000"
      by simp
    with ev show ?thesis
      by (simp add: unreachable_world_def)
  qed
qed

end
